theory Spec2Isabelle
  imports Main "HOL-Library.Word"
begin

unbundle bit_operations_syntax

section \<open>The SGU-1 dispatch (src/engine/platform/sgu.cpp, sgu.h)\<close>

text \<open>
  Machine types: \<open>unsigned char\<close> is an 8-bit word, \<open>unsigned short\<close> a 16-bit word,
  \<open>unsigned int\<close> a 32-bit word. Fields of type \<open>int\<close> and \<open>short\<close> whose values stay far
  from their bounds in the functions below are integers. A fixed-size array indexed by a
  channel or an operator number is a function from the index.
\<close>

type_synonym uchar = "8 word"
type_synonym ushort = "16 word"
type_synonym uint32 = "32 word"

subsection \<open>Register numbers\<close>

text \<open>
  The header sound/sgu.h, which declares the register numbers, is not among the sources.
  The values below are read off the register sheet \<open>regCheatSheetSGU\<close> of sgu.cpp (a channel
  spans 0x40 registers: four operators of eight registers each, then the channel registers
  from 0x20 on).
\<close>

definition SGU_OP_PER_CH :: nat where "SGU_OP_PER_CH = 4"
definition SGU_OP_REGS :: nat where "SGU_OP_REGS = 8"
definition SGU_REGS_PER_CH :: nat where "SGU_REGS_PER_CH = 64"
definition SGU_CH_BASE :: nat where "SGU_CH_BASE = SGU_OP_PER_CH * SGU_OP_REGS"

definition SGU1_CHN_FREQ_L :: nat where "SGU1_CHN_FREQ_L = 0"
definition SGU1_CHN_FREQ_H :: nat where "SGU1_CHN_FREQ_H = 1"
definition SGU1_CHN_VOL :: nat where "SGU1_CHN_VOL = 2"
definition SGU1_CHN_PAN :: nat where "SGU1_CHN_PAN = 3"
definition SGU1_CHN_FLAGS0 :: nat where "SGU1_CHN_FLAGS0 = 4"
definition SGU1_CHN_FLAGS1 :: nat where "SGU1_CHN_FLAGS1 = 5"
definition SGU1_CHN_CUTOFF_L :: nat where "SGU1_CHN_CUTOFF_L = 6"
definition SGU1_CHN_CUTOFF_H :: nat where "SGU1_CHN_CUTOFF_H = 7"
definition SGU1_CHN_DUTY :: nat where "SGU1_CHN_DUTY = 8"
definition SGU1_CHN_RESON :: nat where "SGU1_CHN_RESON = 9"
definition SGU1_CHN_PCM_POS_L :: nat where "SGU1_CHN_PCM_POS_L = 10"
definition SGU1_CHN_PCM_POS_H :: nat where "SGU1_CHN_PCM_POS_H = 11"
definition SGU1_CHN_PCM_END_L :: nat where "SGU1_CHN_PCM_END_L = 12"
definition SGU1_CHN_PCM_END_H :: nat where "SGU1_CHN_PCM_END_H = 13"
definition SGU1_CHN_PCM_RST_L :: nat where "SGU1_CHN_PCM_RST_L = 14"
definition SGU1_CHN_PCM_RST_H :: nat where "SGU1_CHN_PCM_RST_H = 15"

subsection \<open>Instruments\<close>

text \<open>
  The instrument types are declared in instrument.h, outside the sources; the records
  hold the fields sgu.cpp reads and writes, with the C types it treats them as.
\<close>

datatype DivInstrumentType =
    DIV_INS_FM | DIV_INS_OPM | DIV_INS_OPL | DIV_INS_OPLL | DIV_INS_OPZ | DIV_INS_ESFM
  | DIV_INS_C64 | DIV_INS_SID2 | DIV_INS_SU | DIV_INS_POKEY | DIV_INS_AMIGA
  | DIV_INS_OTHER nat

text \<open>\<open>DivInstrumentFM::Operator\<close>.\<close>

record Operator =
  op_enable :: bool
  op_am :: uchar
  op_ar :: uchar
  op_dr :: uchar
  op_mult :: uchar
  op_rr :: uchar
  op_sl :: uchar
  op_tl :: uchar
  op_rs :: uchar
  op_dt :: uchar
  op_d2r :: uchar
  op_dam :: uchar
  op_dvb :: uchar
  op_egt :: uchar
  op_ksl :: uchar
  op_sus :: uchar
  op_vib :: uchar
  op_ws :: uchar
  op_ksr :: uchar

record DivInstrumentFM =
  fm_alg :: uchar
  fm_fb :: uchar
  fm_fms :: uchar
  fm_ams :: uchar
  fm_op :: "nat \<Rightarrow> Operator"

text \<open>\<open>DivInstrumentESFM::Operator\<close>.\<close>

record OperatorE =
  opE_delay :: uchar
  opE_outLvl :: uchar
  opE_modIn :: uchar
  opE_fixed :: uchar

record DivInstrumentESFM =
  esfm_op :: "nat \<Rightarrow> OperatorE"

record DivInstrumentC64 =
  c64_triOn :: bool
  c64_sawOn :: bool
  c64_pulseOn :: bool
  c64_noiseOn :: bool
  c64_a :: uchar
  c64_d :: uchar
  c64_s :: uchar
  c64_r :: uchar
  c64_duty :: ushort
  c64_toFilter :: bool
  c64_initFilter :: bool
  c64_resetDuty :: bool
  c64_res :: uchar
  c64_cut :: ushort
  c64_hp :: bool
  c64_lp :: bool
  c64_bp :: bool

record DivInstrument =
  ins_type :: DivInstrumentType
  ins_fm :: DivInstrumentFM
  ins_esfm :: DivInstrumentESFM
  ins_c64 :: DivInstrumentC64
  ins_amiga_useSample :: bool
  ins_sid2_noiseMode :: uchar

subsection \<open>Channels and the dispatch object\<close>

text \<open>
  \<open>DivPlatformSGU::Channel\<close> (sgu.h), with the fields of its base \<open>SharedChannel\<close> that
  the functions below use (\<open>freq\<close> to \<open>keyOff\<close>). The nested \<open>state\<close> struct is the two
  fields \<open>state_fm\<close> and \<open>state_esfm\<close>.
\<close>

record Channel =
  freq :: int
  baseFreq :: int
  pitch :: int
  pitch2 :: int
  arpOff :: int
  baseNoteOverride :: int
  fixedArp :: bool
  insChanged :: bool
  freqChanged :: bool
  keyOn :: bool
  keyOff :: bool
  state_fm :: DivInstrumentFM
  state_esfm :: DivInstrumentESFM
  cutoff :: int
  baseCutoff :: int
  res :: uchar
  control :: uchar
  pan :: int
  duty :: uchar
  pcm :: bool
  pcmLoop :: bool
  phaseReset :: bool
  filterPhaseReset :: bool
  timerSync :: bool
  freqSweep :: bool
  volSweep :: bool
  cutSweep :: bool
  freqSweepP :: ushort
  volSweepP :: ushort
  cutSweepP :: ushort
  freqSweepB :: uchar
  volSweepB :: uchar
  cutSweepB :: uchar
  freqSweepV :: uchar
  volSweepV :: uchar
  cutSweepV :: uchar
  syncTimer :: ushort
  hasOffset :: int
  sample :: int
  released :: bool
  cutoff_slide :: int
  pw_slide :: int
  virtual_duty :: int
  ringMask :: uchar
  syncMask :: uchar
  key :: bool

record QueuedWrite =
  addr :: ushort
  val :: uchar

text \<open>\<open>DivMemoryComposition\<close>: the entries are (sample, begin, end).\<close>

record DivMemoryComposition =
  compo_entries :: "(nat \<times> nat \<times> nat) list"
  compo_used :: nat
  compo_capacity :: nat

text \<open>The chip core: its sample RAM \<open>sgu->pcm\<close> and the rest of its state.\<close>

record 'c SGU =
  pcm_ram :: "uchar list"
  core :: 'c

text \<open>
  The dispatch object. Modelled from the spec: \<open>FixedQueue\<close> (fixedQueue.h) is not among
  the sources; the write queue is a first-in first-out list, whose bounded capacity the
  spec says the caller never exceeds. \<open>regWrites\<close> is what \<open>addWrite\<close> of the base class
  records when \<open>dumpWrites\<close> is set, \<open>warnings\<close> the samples \<open>logW\<close> was called for, and
  \<open>oscBuf\<close> the (frame, sample) pairs put into each channel's oscilloscope buffer.
\<close>

record 'c Platform =
  chan :: "nat \<Rightarrow> Channel"
  writes :: "QueuedWrite list"
  regPool :: "uchar list"
  skipRegisterWrites :: bool
  dumpWrites :: bool
  regWrites :: "(nat \<times> int) list"
  sgu :: "'c SGU"
  oscBuf :: "nat \<Rightarrow> (nat \<times> int) list"
  sampleOffSGU :: "uint32 list"
  sampleLoaded :: "bool list"
  sampleMem :: "uchar list"
  sampleMemLen :: nat
  memCompo :: DivMemoryComposition
  sysIDCache :: nat
  warnings :: "nat list"

subsection \<open>Register writes\<close>

text \<open>
  The macro \<open>rWrite(a,v)\<close>: nothing when register writes are skipped; otherwise the write
  is queued (the address cut to 16 bits, the value to 8), recorded when \<open>dumpWrites\<close> is
  set, and mirrored into the register pool when the address lies inside it
  (\<open>SGU_REG_POOL_SIZE\<close> is the pool's length).
\<close>

definition rWrite :: "nat \<Rightarrow> int \<Rightarrow> 'c Platform \<Rightarrow> 'c Platform" where
  "rWrite a v st =
     (if skipRegisterWrites st then st
      else
        let st1 = st\<lparr>writes := writes st @ [\<lparr>addr = word_of_nat a, val = word_of_int v\<rparr>]\<rparr>;
            st2 = (if dumpWrites st1 then st1\<lparr>regWrites := regWrites st1 @ [(a, v)]\<rparr> else st1)
        in if a < length (regPool st2)
           then st2\<lparr>regPool := (regPool st2)[a := word_of_int v]\<rparr>
           else st2)"

definition opWrite :: "nat \<Rightarrow> nat \<Rightarrow> nat \<Rightarrow> int \<Rightarrow> 'c Platform \<Rightarrow> 'c Platform" where
  "opWrite c o' a v = rWrite (c * SGU_REGS_PER_CH + o' * SGU_OP_REGS + a) v"

definition chWrite :: "nat \<Rightarrow> nat \<Rightarrow> int \<Rightarrow> 'c Platform \<Rightarrow> 'c Platform" where
  "chWrite c a v = rWrite (c * SGU_REGS_PER_CH + SGU_CH_BASE + a) v"

text \<open>The byte \<open>flags0\<close> that \<open>writeControl\<close> computes from a channel.\<close>

definition flags0 :: "Channel \<Rightarrow> uchar" where
  "flags0 c =
     (((if key c then 1 else 0) AND 1)
       OR (if pcm c then push_bit 3 1 else 0)
       OR push_bit 4 (control c AND 0x0f))"

definition writeControl :: "nat \<Rightarrow> 'c Platform \<Rightarrow> 'c Platform" where
  "writeControl ch st = chWrite ch SGU1_CHN_FLAGS0 (uint (flags0 (chan st ch))) st"

text \<open>The byte \<open>flags1\<close> that \<open>writeControlUpper\<close> computes from a channel.\<close>

definition flags1 :: "Channel \<Rightarrow> uchar" where
  "flags1 c =
     ((if phaseReset c then 1 else 0)
       OR (if filterPhaseReset c then 2 else 0)
       OR (if pcmLoop c then 4 else 0)
       OR (if timerSync c then 8 else 0)
       OR (if freqSweep c then 16 else 0)
       OR (if volSweep c then 32 else 0)
       OR (if cutSweep c then 64 else 0))"

definition writeControlUpper :: "nat \<Rightarrow> 'c Platform \<Rightarrow> 'c Platform" where
  "writeControlUpper ch st =
     (let st1 = chWrite ch SGU1_CHN_FLAGS1 (uint (flags1 (chan st ch))) st;
          st2 = st1\<lparr>chan := (chan st1)(ch := (chan st1 ch)\<lparr>phaseReset := False\<rparr>)\<rparr>
      in st2\<lparr>chan := (chan st2)(ch := (chan st2 ch)\<lparr>filterPhaseReset := False\<rparr>)\<rparr>)"

subsection \<open>Operator registers\<close>

definition applyOpRegs :: "nat \<Rightarrow> nat \<Rightarrow> 'c Platform \<Rightarrow> 'c Platform" where
  "applyOpRegs ch o' st =
     (let c = chan st ch;
          op = fm_op (state_fm c) o';
          opE = esfm_op (state_esfm c) o';
          tl = op_tl op AND 0x7f;
          ar = op_ar op AND 0x1f;
          dr = op_dr op AND 0x1f;
          reg0 = push_bit 7 (op_am op AND 1) OR push_bit 6 (op_vib op AND 1)
                   OR push_bit 5 (opE_fixed opE AND 1) OR (op_mult op AND 0x0f);
          reg1 = push_bit 6 (op_ksl op AND 3) OR (tl AND 0x3f);
          reg2 = push_bit 4 (ar AND 0x0f) OR (dr AND 0x0f);
          reg3 = push_bit 4 (op_sl op AND 0x0f) OR (op_rr op AND 0x0f);
          reg4 = push_bit 5 (op_dt op AND 0x07) OR (op_d2r op AND 0x1f);
          wpar = (0 :: uchar);
          reg5 = push_bit 5 (opE_delay opE AND 0x07) OR push_bit 3 (op_rs op AND 0x03)
                   OR (wpar AND 0x07);
          ring = (drop_bit o' (ringMask c) AND 1 \<noteq> 0);
          sync = (drop_bit o' (syncMask c) AND 1 \<noteq> 0);
          reg6 = push_bit 7 (op_dam op AND 1) OR push_bit 6 (op_dvb op AND 1)
                   OR (if sync then 0x20 else 0) OR (if ring then 0x10 else 0)
                   OR push_bit 1 (opE_modIn opE AND 0x07)
                   OR (drop_bit 6 tl AND 1);
          outLvl = (if op_enable op then opE_outLvl opE AND 0x07 else 0);
          reg7 = push_bit 5 outLvl
                   OR (if ar AND 0x10 \<noteq> 0 then 0x10 else 0)
                   OR (if dr AND 0x10 \<noteq> 0 then 0x08 else 0)
                   OR (op_ws op AND 0x07)
      in opWrite ch o' 7 (uint reg7)
          (opWrite ch o' 6 (uint reg6)
          (opWrite ch o' 5 (uint reg5)
          (opWrite ch o' 4 (uint reg4)
          (opWrite ch o' 3 (uint reg3)
          (opWrite ch o' 2 (uint reg2)
          (opWrite ch o' 1 (uint reg1)
          (opWrite ch o' 0 (uint reg0) st))))))))"

subsection \<open>commitState: the width conversions\<close>

text \<open>
  The conversion expressions of \<open>commitState\<close>, named. \<open>widen4to5\<close> is
  \<^verbatim>\<open>((x & 0x0f) << 1) | 1\<close> (attack and decay rates), \<open>widen6to7\<close> is
  \<^verbatim>\<open>((x & 0x3f) << 1) | 1\<close> (total level), \<open>opllCarrierTl\<close> is
  \<^verbatim>\<open>((x & 0x0f) << 3) | 0x04\<close> (the OPLL carrier's total level), and \<open>c64Cutoff\<close> is
  \<^verbatim>\<open>(unsigned short)((cutClamp*65535U+1023U)/2047U)\<close> with \<open>cutClamp\<close> the cutoff
  capped at 2047, computed in \<open>unsigned int\<close>.
\<close>

definition widen4to5 :: "uchar \<Rightarrow> uchar" where
  "widen4to5 x = push_bit 1 (x AND 0x0f) OR 1"

definition widen6to7 :: "uchar \<Rightarrow> uchar" where
  "widen6to7 x = push_bit 1 (x AND 0x3f) OR 1"

definition opllCarrierTl :: "uchar \<Rightarrow> uchar" where
  "opllCarrierTl x = push_bit 3 (x AND 0x0f) OR 0x04"

definition c64Cutoff :: "ushort \<Rightarrow> int" where
  "c64Cutoff c =
     (let cutClamp = (if c > 2047 then 2047 else ucast c) :: uint32
      in uint (ucast ((cutClamp * 65535 + 1023) div 2047) :: ushort))"

subsection \<open>commitState: waveforms\<close>

text \<open>
  The waveform numbers \<open>SGU_WAVE_*\<close> are declared in sound/sgu.h, outside the sources:
  they are a parameter.
\<close>

record SguWaves =
  SGU_WAVE_SINE :: uchar
  SGU_WAVE_TRIANGLE :: uchar
  SGU_WAVE_SAWTOOTH :: uchar
  SGU_WAVE_PULSE :: uchar
  SGU_WAVE_NOISE :: uchar
  SGU_WAVE_PERIODIC_NOISE :: uchar

definition sguC64Wave :: "SguWaves \<Rightarrow> DivInstrumentC64 \<Rightarrow> bool \<Rightarrow> uchar" where
  "sguC64Wave W c64 periodicNoise =
     (if c64_noiseOn c64
      then (if periodicNoise then SGU_WAVE_PERIODIC_NOISE W else SGU_WAVE_NOISE W)
      else if c64_pulseOn c64 then SGU_WAVE_PULSE W
      else if c64_sawOn c64 then SGU_WAVE_SAWTOOTH W
      else if c64_triOn c64 then SGU_WAVE_TRIANGLE W
      else SGU_WAVE_SAWTOOTH W)"

definition oplToSguWaveformMap :: "SguWaves \<Rightarrow> uchar list" where
  "oplToSguWaveformMap W =
     [SGU_WAVE_SINE W, SGU_WAVE_PULSE W, SGU_WAVE_SINE W, SGU_WAVE_TRIANGLE W,
      SGU_WAVE_PULSE W, SGU_WAVE_PULSE W, SGU_WAVE_PULSE W, SGU_WAVE_SAWTOOTH W]"

text \<open>The first switch of the operator loop ("Convert waveforms").\<close>

definition convWave :: "SguWaves \<Rightarrow> DivInstrumentType \<Rightarrow> Operator \<Rightarrow> Operator" where
  "convWave W t op =
     (if t \<in> {DIV_INS_ESFM, DIV_INS_FM, DIV_INS_OPM, DIV_INS_OPL, DIV_INS_OPLL, DIV_INS_OPZ}
      then op\<lparr>op_ws := oplToSguWaveformMap W ! unat (op_ws op AND 0x07)\<rparr>
      else op)"

subsection \<open>commitState: envelopes\<close>

text \<open>The single carrier of the C64 and SID2 cases (operator 3).\<close>

definition c64Carrier :: "DivInstrumentC64 \<Rightarrow> uchar \<Rightarrow> Operator \<Rightarrow> Operator" where
  "c64Carrier c64 wave op =
     (let decay = (if c64_s c64 = 15 then 0 else c64_d c64 AND 0x0f)
      in op\<lparr>op_ar := widen4to5 (c64_a c64),
             op_dr := widen4to5 decay,
             op_sl := 15 - (c64_s c64 AND 0x0f),
             op_rr := c64_r c64 AND 0x0f,
             op_d2r := 0,
             op_tl := 0,
             op_mult := 1,
             op_ws := wave\<rparr>)"

text \<open>The single carrier of the SoundUnit and POKEY cases (operator 3).\<close>

definition simpleCarrier :: "uchar \<Rightarrow> Operator \<Rightarrow> Operator" where
  "simpleCarrier wave op =
     op\<lparr>op_ar := 31, op_dr := 0, op_sl := 0, op_rr := 15, op_d2r := 0, op_tl := 0,
        op_mult := 1, op_ws := wave\<rparr>"

definition disableOp :: "Operator \<Rightarrow> Operator" where
  "disableOp op = op\<lparr>op_tl := 127, op_enable := False\<rparr>"

text \<open>
  The second switch of the operator loop ("Convert ADSR envelope parameters"), for
  operator \<open>o'\<close> of the local copy \<open>fm\<close>.
\<close>

definition convEnv ::
  "SguWaves \<Rightarrow> DivInstrument \<Rightarrow> DivInstrumentFM \<Rightarrow> nat \<Rightarrow> Operator \<Rightarrow> Operator" where
  "convEnv W ins fm o' op =
     (case ins_type ins of
        DIV_INS_ESFM \<Rightarrow>
          op\<lparr>op_ar := widen4to5 (op_ar op), op_dr := widen4to5 (op_dr op),
             op_tl := widen6to7 (op_tl op),
             op_d2r := (if op_egt op \<noteq> 0 then 0 else 31)\<rparr>
      | DIV_INS_OPL \<Rightarrow>
          op\<lparr>op_ar := widen4to5 (op_ar op), op_dr := widen4to5 (op_dr op),
             op_tl := widen6to7 (op_tl op),
             op_d2r := (if op_egt op \<noteq> 0 then 0 else 31)\<rparr>
      | DIV_INS_OPLL \<Rightarrow>
          op\<lparr>op_ar := widen4to5 (op_ar op), op_dr := widen4to5 (op_dr op),
             op_tl := (if o' = 0 then widen6to7 (op_tl op) else opllCarrierTl (op_tl op)),
             op_d2r := (if op_sus op \<noteq> 0 then 0 else 31),
             op_rs := (if op_ksr op AND 1 \<noteq> 0 then 3 else 0),
             op_dam := fm_ams fm AND 1,
             op_dvb := fm_fms fm AND 1\<rparr>
      | DIV_INS_FM \<Rightarrow> op
      | DIV_INS_OPM \<Rightarrow> op
      | DIV_INS_OPZ \<Rightarrow> op
      | DIV_INS_C64 \<Rightarrow>
          (if o' = 3 then c64Carrier (ins_c64 ins) (sguC64Wave W (ins_c64 ins) False) op
           else disableOp op)
      | DIV_INS_SID2 \<Rightarrow>
          (if o' = 3
           then c64Carrier (ins_c64 ins)
                  (sguC64Wave W (ins_c64 ins) (ins_sid2_noiseMode ins \<noteq> 0)) op
           else disableOp op)
      | DIV_INS_SU \<Rightarrow>
          (if o' = 3 then simpleCarrier (SGU_WAVE_SAWTOOTH W) op else disableOp op)
      | DIV_INS_POKEY \<Rightarrow>
          (if o' = 3 then simpleCarrier (SGU_WAVE_PULSE W) op else disableOp op)
      | _ \<Rightarrow> op)"

text \<open>One round of the loop \<^verbatim>\<open>for (int o=0; o<SGU_OP_PER_CH; o++)\<close>, and the loop.\<close>

definition commitOp :: "SguWaves \<Rightarrow> DivInstrument \<Rightarrow> nat \<Rightarrow> DivInstrumentFM \<Rightarrow> DivInstrumentFM" where
  "commitOp W ins o' fm =
     fm\<lparr>fm_op := (fm_op fm)(o' := convEnv W ins fm o' (convWave W (ins_type ins) (fm_op fm o')))\<rparr>"

definition commitOps :: "SguWaves \<Rightarrow> DivInstrument \<Rightarrow> DivInstrumentFM \<Rightarrow> DivInstrumentFM" where
  "commitOps W ins fm = fold (commitOp W ins) [0 ..< SGU_OP_PER_CH] fm"

subsection \<open>commitState: routing and channel settings\<close>

definition setRoute :: "nat \<Rightarrow> uchar \<Rightarrow> uchar \<Rightarrow> DivInstrumentESFM \<Rightarrow> DivInstrumentESFM" where
  "setRoute i m out e =
     e\<lparr>esfm_op := (esfm_op e)(i := (esfm_op e i)\<lparr>opE_modIn := m, opE_outLvl := out\<rparr>)\<rparr>"

text \<open>
  The table \<^verbatim>\<open>switch (fm.alg & 7)\<close> of the FM, OPM and OPZ cases (the same text three
  times in the source): the pair (modIn, outLvl) of each operator.
\<close>

definition routes4 :: "uchar \<Rightarrow> uchar \<Rightarrow> (uchar \<times> uchar) list" where
  "routes4 alg fb =
     (let f = fb AND 7; a = alg AND 7 in
      if a = 0 then [(f, 0), (7, 0), (7, 0), (7, 7)]
      else if a = 1 then [(f, 0), (0, 0), (7, 0), (7, 7)]
      else if a = 2 then [(f, 0), (0, 0), (7, 0), (7, 7)]
      else if a = 3 then [(f, 0), (7, 0), (0, 0), (7, 7)]
      else if a = 4 then [(f, 0), (7, 7), (0, 0), (7, 7)]
      else if a = 5 then [(f, 0), (7, 7), (7, 7), (7, 7)]
      else if a = 6 then [(f, 0), (7, 7), (0, 7), (0, 7)]
      else [(f, 7), (0, 7), (0, 7), (0, 7)])"

definition applyRoutes :: "(uchar \<times> uchar) list \<Rightarrow> DivInstrumentESFM \<Rightarrow> DivInstrumentESFM" where
  "applyRoutes rs e = fold (\<lambda>i. setRoute i (fst (rs ! i)) (snd (rs ! i))) [0 ..< 4] e"

text \<open>The loop \<^verbatim>\<open>for (int i=2; i<4; i++)\<close> that disables operators 2 and 3.\<close>

definition silenceOp ::
  "nat \<Rightarrow> DivInstrumentFM \<times> DivInstrumentESFM \<Rightarrow> DivInstrumentFM \<times> DivInstrumentESFM" where
  "silenceOp i p =
     (case p of (fm, e) \<Rightarrow>
        (fm\<lparr>fm_op := (fm_op fm)(i := (fm_op fm i)\<lparr>op_enable := False, op_tl := 127\<rparr>)\<rparr>,
         e\<lparr>esfm_op := (esfm_op e)(i := (esfm_op e i)\<lparr>opE_outLvl := 0, opE_modIn := 0\<rparr>)\<rparr>))"

text \<open>The routing shared by the OPL and OPLL cases.\<close>

definition twoOpRouting ::
  "DivInstrumentFM \<Rightarrow> DivInstrumentESFM \<Rightarrow> DivInstrumentFM \<times> DivInstrumentESFM" where
  "twoOpRouting fm e =
     (let algAdd = (fm_alg fm AND 1 \<noteq> 0);
          e1 = setRoute 0 (fm_fb fm AND 7) (if algAdd then 7 else 0) e;
          e2 = setRoute 1 (if algAdd then 0 else 7) 7 e1
      in fold silenceOp [2 ..< 4] (fm, e2))"

text \<open>The OPLL case's second pass over operators 0 and 1 ("Convert KSR").\<close>

definition opllKsr :: "nat \<Rightarrow> DivInstrumentFM \<Rightarrow> DivInstrumentFM" where
  "opllKsr i fm =
     fm\<lparr>fm_op := (fm_op fm)(i := (fm_op fm i)
        \<lparr>op_rs := (if op_ksr (fm_op fm i) AND 1 \<noteq> 0 then 3 else 0),
         op_dam := fm_ams fm AND 1,
         op_dvb := fm_fms fm AND 1\<rparr>)\<rparr>"

text \<open>The routing of the single-carrier cases (SU, POKEY, C64, SID2).\<close>

definition carrierRouting :: "DivInstrumentESFM \<Rightarrow> DivInstrumentESFM" where
  "carrierRouting e =
     (let e1 = fold (\<lambda>i e. e\<lparr>esfm_op := (esfm_op e)(i := (esfm_op e i)
                  \<lparr>opE_outLvl := 0, opE_modIn := 0\<rparr>)\<rparr>) [0 ..< 3] e
      in e1\<lparr>esfm_op := (esfm_op e1)(3 := (esfm_op e1 3)\<lparr>opE_modIn := 0, opE_outLvl := 7\<rparr>)\<rparr>)"

definition updChan :: "nat \<Rightarrow> (Channel \<Rightarrow> Channel) \<Rightarrow> 'c Platform \<Rightarrow> 'c Platform" where
  "updChan ch f st = st\<lparr>chan := (chan st)(ch := f (chan st ch))\<rparr>"

text \<open>The C64 and SID2 cases: "Handle duty cycle".\<close>

definition c64Duty :: "nat \<Rightarrow> DivInstrumentC64 \<Rightarrow> 'c Platform \<Rightarrow> 'c Platform" where
  "c64Duty ch c64 st =
     (if c64_resetDuty c64 \<or> insChanged (chan st ch)
      then
        let dutyClamp = (if c64_duty c64 > 4095 then 4095 else c64_duty c64);
            st1 = updChan ch (\<lambda>c. c\<lparr>duty := ucast (drop_bit 5 dutyClamp)\<rparr>) st;
            st2 = updChan ch (\<lambda>c. c\<lparr>virtual_duty := uint (push_bit 5 (ucast (duty c) :: ushort))\<rparr>) st1
        in chWrite ch SGU1_CHN_DUTY (uint (duty (chan st2 ch))) st2
      else st)"

text \<open>
  The C64 and SID2 cases: "Handle filter settings". The pair is the state and the local
  \<open>updateFilter\<close>.
\<close>

definition c64FilterSet :: "nat \<Rightarrow> DivInstrumentC64 \<Rightarrow> 'c Platform \<Rightarrow> 'c Platform \<times> bool" where
  "c64FilterSet ch c64 st =
     (if \<not> c64_toFilter c64
      then (if control (chan st ch) \<noteq> 0
            then (updChan ch (\<lambda>c. c\<lparr>control := 0\<rparr>) st, True)
            else (st, False))
      else if c64_initFilter c64 \<or> insChanged (chan st ch)
      then (if c64_initFilter c64
            then
              let resClamp = c64_res c64 AND 0x0f in
              (updChan ch (\<lambda>c. c
                 \<lparr>cutoff := c64Cutoff (c64_cut c64),
                  baseCutoff := c64Cutoff (c64_cut c64),
                  res := push_bit 4 resClamp OR resClamp,
                  control := (if c64_lp c64 then 2 else 0) OR (if c64_hp c64 then 4 else 0)
                               OR (if c64_bp c64 then 8 else 0)\<rparr>) st, True)
            else (st, False))
      else (st, False))"

definition c64Channel :: "nat \<Rightarrow> DivInstrumentC64 \<Rightarrow> 'c Platform \<Rightarrow> 'c Platform" where
  "c64Channel ch c64 st =
     (let st1 = c64Duty ch c64 st;
          (st2, updateFilter) = c64FilterSet ch c64 st1;
          st3 = (if updateFilter
                 then writeControl ch
                        (chWrite ch SGU1_CHN_RESON (uint (res (chan st2 ch)))
                        (chWrite ch SGU1_CHN_CUTOFF_H (drop_bit 8 (cutoff (chan st2 ch)))
                        (chWrite ch SGU1_CHN_CUTOFF_L (cutoff (chan st2 ch) AND 0xff) st2)))
                 else st2)
      in updChan ch (\<lambda>c. c\<lparr>ringMask := 0, syncMask := 0\<rparr>) st3)"

text \<open>
  The switch "Convert operator algorithms" on the local copies \<open>fm\<close> and \<open>esfm\<close> and the
  dispatch object. \<open>E0\<close> is the value of \<^verbatim>\<open>DivInstrumentESFM()\<close>, whose constructor is
  declared in instrument.h, outside the sources.
\<close>

definition convAlg ::
  "DivInstrumentESFM \<Rightarrow> nat \<Rightarrow> DivInstrument \<Rightarrow>
   DivInstrumentFM \<times> DivInstrumentESFM \<times> 'c Platform \<Rightarrow>
   DivInstrumentFM \<times> DivInstrumentESFM \<times> 'c Platform" where
  "convAlg E0 ch ins p =
     (case p of (fm, esfm, st) \<Rightarrow>
      (case ins_type ins of
         DIV_INS_ESFM \<Rightarrow> (fm, esfm, st)
       | DIV_INS_AMIGA \<Rightarrow> (fm, esfm, st)
       | DIV_INS_FM \<Rightarrow> (fm, applyRoutes (routes4 (fm_alg fm) (fm_fb fm)) E0, st)
       | DIV_INS_OPM \<Rightarrow> (fm, applyRoutes (routes4 (fm_alg fm) (fm_fb fm)) E0, st)
       | DIV_INS_OPL \<Rightarrow> (case twoOpRouting fm E0 of (fm', e') \<Rightarrow> (fm', e', st))
       | DIV_INS_OPLL \<Rightarrow>
           (let fm1 = fm\<lparr>fm_op := (fm_op fm)(1 := (fm_op fm 1)
                        \<lparr>op_tl := opllCarrierTl (op_tl (fm_op fm 1))\<rparr>)\<rparr>;
                fm2 = fold opllKsr [0 ..< 2] fm1
            in case twoOpRouting fm2 E0 of (fm', e') \<Rightarrow> (fm', e', st))
       | DIV_INS_OPZ \<Rightarrow>
           (let e1 = fold (\<lambda>i e. e\<lparr>esfm_op := (esfm_op e)(i := (esfm_op e i)
                        \<lparr>opE_fixed := op_egt (fm_op fm i)\<rparr>)\<rparr>) [0 ..< 4] E0
            in (fm, applyRoutes (routes4 (fm_alg fm) (fm_fb fm)) e1, st))
       | DIV_INS_SU \<Rightarrow> (fm, carrierRouting E0, st)
       | DIV_INS_POKEY \<Rightarrow> (fm, carrierRouting E0, st)
       | DIV_INS_C64 \<Rightarrow> (fm, carrierRouting E0, c64Channel ch (ins_c64 ins) st)
       | DIV_INS_SID2 \<Rightarrow> (fm, carrierRouting E0, c64Channel ch (ins_c64 ins) st)
       | DIV_INS_OTHER k \<Rightarrow> (fm, esfm, st)))"

subsection \<open>commitState\<close>

text \<open>\<open>None\<close> is the null instrument pointer.\<close>

definition commitState ::
  "SguWaves \<Rightarrow> DivInstrumentESFM \<Rightarrow> nat \<Rightarrow> DivInstrument option \<Rightarrow> 'c Platform \<Rightarrow> 'c Platform" where
  "commitState W E0 ch insp st =
     (case insp of
        None \<Rightarrow> st
      | Some ins \<Rightarrow>
          if ins_type ins = DIV_INS_AMIGA \<or> ins_amiga_useSample ins
          then writeControlUpper ch (writeControl ch (updChan ch (\<lambda>c. c\<lparr>pcm := True\<rparr>) st))
          else
            let st1 = updChan ch (\<lambda>c. c\<lparr>pcm := False\<rparr>) st;
                fm = commitOps W ins (ins_fm ins)
            in case convAlg E0 ch ins (fm, ins_esfm ins, st1) of
                 (fm', esfm', st2) \<Rightarrow>
                   fold (applyOpRegs ch) [0 ..< 4]
                     (updChan ch (\<lambda>c. c\<lparr>state_fm := fm', state_esfm := esfm'\<rparr>) st2))"

text \<open>Operator \<open>i\<close> of the bank that \<open>commitState\<close> leaves in channel \<open>ch\<close>.\<close>

abbreviation storedOp ::
  "SguWaves \<Rightarrow> DivInstrumentESFM \<Rightarrow> nat \<Rightarrow> DivInstrument \<Rightarrow> 'c Platform \<Rightarrow> nat \<Rightarrow> Operator" where
  "storedOp W E0 ch ins st i \<equiv> fm_op (state_fm (chan (commitState W E0 ch (Some ins) st) ch)) i"

subsection \<open>tick: key edges and frequency\<close>

text \<open>\<open>DivSample\<close> (sample.h, outside the sources): the fields and the results of the methods
  that sgu.cpp uses. \<open>renderOn s\<close> is \<^verbatim>\<open>renderOn[0][s]\<close>.\<close>

record DivSample =
  data8 :: "uchar list option"
  length8 :: nat
  renderOn :: "nat \<Rightarrow> bool"
  centerRate :: int
  loopEndPosition :: int
  loopStartPosition :: int
  isLoopable :: bool

text \<open>
  What \<open>tick\<close> asks of the engine and of the chip header, all outside the sources:
  \<open>calcFreq b p a f p2\<close> is \<^verbatim>\<open>parent->calcFreq(b,p,a,f,false,8,p2,chipClock,CHIP_FREQBASE)\<close>,
  \<open>getSample\<close> is \<^verbatim>\<open>parent->getSample\<close> (\<open>None\<close> for a null pointer), \<open>sampleLen\<close> is
  \<^verbatim>\<open>parent->song.sampleLen\<close>, \<open>scaleFreq f s\<close> is the floating-point product
  \<^verbatim>\<open>(double)f*off\<close> converted back to \<open>int\<close> (with \<open>off\<close> computed from the sample's
  \<open>centerRate\<close> and \<^verbatim>\<open>parent->getCenterRate()\<close>), and \<open>pcmRamSize\<close> is \<open>SGU_PCM_RAM_SIZE\<close>.
\<close>

record Engine =
  calcFreq :: "int \<Rightarrow> int \<Rightarrow> int \<Rightarrow> bool \<Rightarrow> int \<Rightarrow> int"
  getSample :: "int \<Rightarrow> DivSample option"
  sampleLen :: nat
  scaleFreq :: "int \<Rightarrow> DivSample \<Rightarrow> int"
  pcmRamSize :: nat

definition getSampleMemCapacity :: "Engine \<Rightarrow> int \<Rightarrow> nat" where
  "getSampleMemCapacity E index = (if index = 0 then pcmRamSize E else 0)"

text \<open>
  \<open>tick\<close>, key-on on a PCM channel: the start, end and restart offsets of the sample and
  the FLAGS1 write (the body of \<^verbatim>\<open>if (chan[i].pcm)\<close> under the second
  \<^verbatim>\<open>if (chan[i].keyOn)\<close>).
\<close>

definition tickPcmStart :: "Engine \<Rightarrow> nat \<Rightarrow> 'c Platform \<Rightarrow> 'c Platform" where
  "tickPcmStart E i st =
     (let sNum = sample (chan st i) in
      case getSample E sNum of
        None \<Rightarrow> st
      | Some smp \<Rightarrow>
          if sNum \<ge> 0 \<and> sNum < int (sampleLen E)
          then
            let sampleEnd0 = sampleOffSGU st ! nat sNum + word_of_int (loopEndPosition smp);
                off = sampleOffSGU st ! nat sNum + word_of_int (hasOffset (chan st i));
                st1 = updChan i (\<lambda>c. c\<lparr>hasOffset := 0\<rparr>) st;
                sampleEnd = (if unat sampleEnd0 \<ge> getSampleMemCapacity E 0
                             then word_of_int (int (getSampleMemCapacity E 0) - 1) else sampleEnd0);
                st2 = chWrite i SGU1_CHN_PCM_END_H (uint (drop_bit 8 sampleEnd))
                       (chWrite i SGU1_CHN_PCM_END_L (uint (sampleEnd AND 0xff))
                       (chWrite i SGU1_CHN_PCM_POS_H (uint (drop_bit 8 off))
                       (chWrite i SGU1_CHN_PCM_POS_L (uint (off AND 0xff)) st1)));
                st3 = (if isLoopable smp
                       then
                         let sampleLoop0 = sampleOffSGU st2 ! nat sNum
                                             + word_of_int (loopStartPosition smp);
                             sampleLoop = (if unat sampleLoop0 \<ge> getSampleMemCapacity E 0
                                           then word_of_int (int (getSampleMemCapacity E 0) - 1)
                                           else sampleLoop0)
                         in updChan i (\<lambda>c. c\<lparr>pcmLoop := True\<rparr>)
                              (chWrite i SGU1_CHN_PCM_RST_H (uint (drop_bit 8 sampleLoop))
                              (chWrite i SGU1_CHN_PCM_RST_L (uint (sampleLoop AND 0xff)) st2))
                       else updChan i (\<lambda>c. c\<lparr>pcmLoop := False\<rparr>) st2)
            in writeControlUpper i st3
          else st)"

text \<open>
  \<open>tick\<close>, the key-off at the head of the block (the body of
  \<^verbatim>\<open>if (chan[i].keyOn || chan[i].keyOff)\<close>).
\<close>

definition tickKeyOff :: "nat \<Rightarrow> 'c Platform \<Rightarrow> 'c Platform" where
  "tickKeyOff i st =
     (let st1 = writeControl i (updChan i (\<lambda>c. c\<lparr>key := False\<rparr>) st);
          st2 = (if keyOff (chan st1 i) \<and> pcm (chan st1 i)
                 then chWrite i SGU1_CHN_VOL 0 st1 else st1)
      in updChan i (\<lambda>c. c\<lparr>keyOff := False\<rparr>) st2)"

text \<open>\<open>tick\<close>, the frequency of channel \<open>i\<close>: computed, scaled on a PCM channel, clamped.\<close>

definition tickFreq :: "Engine \<Rightarrow> nat \<Rightarrow> 'c Platform \<Rightarrow> 'c Platform" where
  "tickFreq E i st =
     (let st1 = updChan i (\<lambda>c. c\<lparr>freq :=
                  calcFreq E (baseFreq c) (pitch c)
                    (if fixedArp c then baseNoteOverride c else arpOff c) (fixedArp c) (pitch2 c)\<rparr>) st;
          st2 = (if pcm (chan st1 i)
                 then (case getSample E (sample (chan st1 i)) of
                         None \<Rightarrow> st1
                       | Some smp \<Rightarrow> updChan i (\<lambda>c. c\<lparr>freq := scaleFreq E (freq c) smp\<rparr>) st1)
                 else st1);
          st3 = (if freq (chan st2 i) < 0 then updChan i (\<lambda>c. c\<lparr>freq := 0\<rparr>) st2 else st2)
      in if freq (chan st3 i) > 65535 then updChan i (\<lambda>c. c\<lparr>freq := 65535\<rparr>) st3 else st3)"

text \<open>
  \<open>tick\<close>, the last block of the loop over the channels, for channel \<open>i\<close>
  (\<^verbatim>\<open>if (chan[i].freqChanged || chan[i].keyOn || chan[i].keyOff)\<close>). The macro handling
  that precedes it in the loop body is not part of this function: it changes the channel
  and queues writes of its own before the block runs.
\<close>

definition tickKeyFreq :: "Engine \<Rightarrow> nat \<Rightarrow> 'c Platform \<Rightarrow> 'c Platform" where
  "tickKeyFreq E i st =
     (if freqChanged (chan st i) \<or> keyOn (chan st i) \<or> keyOff (chan st i)
      then
        let st1 = (if keyOn (chan st i) \<or> keyOff (chan st i) then tickKeyOff i st else st);
            st2 = tickFreq E i st1;
            st3 = chWrite i SGU1_CHN_FREQ_H (drop_bit 8 (freq (chan st2 i)))
                    (chWrite i SGU1_CHN_FREQ_L (freq (chan st2 i) AND 0xff) st2);
            st4 = (if keyOn (chan st3 i)
                   then writeControl i (updChan i (\<lambda>c. c\<lparr>key := True\<rparr>) st3) else st3);
            st5 = (if keyOn (chan st4 i)
                   then (if pcm (chan st4 i) then tickPcmStart E i st4 else st4) else st4);
            st6 = (if keyOn (chan st5 i) then updChan i (\<lambda>c. c\<lparr>keyOn := False\<rparr>) st5 else st5)
        in updChan i (\<lambda>c. c\<lparr>freqChanged := False\<rparr>) st6
      else st)"

text \<open>The queue address of register \<open>r\<close> of channel \<open>i\<close>.\<close>

definition chAddr :: "nat \<Rightarrow> nat \<Rightarrow> ushort" where
  "chAddr i r = word_of_nat (i * SGU_REGS_PER_CH + SGU_CH_BASE + r)"

text \<open>The writes a function queued: what the queue holds beyond its content before.\<close>

definition emitted :: "'c Platform \<Rightarrow> 'c Platform \<Rightarrow> QueuedWrite list" where
  "emitted st st' = drop (length (writes st)) (writes st')"

text \<open>The frequency that \<open>tickFreq\<close> leaves in the channel.\<close>

definition newFreq :: "Engine \<Rightarrow> Channel \<Rightarrow> int" where
  "newFreq E c =
     (let f0 = calcFreq E (baseFreq c) (pitch c)
                 (if fixedArp c then baseNoteOverride c else arpOff c) (fixedArp c) (pitch2 c);
          f1 = (if pcm c then (case getSample E (sample c) of None \<Rightarrow> f0 | Some smp \<Rightarrow> scaleFreq E f0 smp)
                else f0)
      in min 65535 (max 0 f1))"

definition pcmRegs :: "nat set" where
  "pcmRegs = {SGU1_CHN_FLAGS1, SGU1_CHN_PCM_POS_L, SGU1_CHN_PCM_POS_H, SGU1_CHN_PCM_END_L,
              SGU1_CHN_PCM_END_H, SGU1_CHN_PCM_RST_L, SGU1_CHN_PCM_RST_H}"

subsection \<open>renderSamples and the introspection calls\<close>

text \<open>
  \<^verbatim>\<open>memcpy(dst+pos,src,n)\<close> on arrays as lists; the source calls it with \<open>pos + n\<close> inside
  \<open>dst\<close> and \<open>n\<close> inside \<open>src\<close>.
\<close>

definition memcpy_at :: "'a list \<Rightarrow> nat \<Rightarrow> 'a list \<Rightarrow> nat \<Rightarrow> 'a list" where
  "memcpy_at dst pos src n = take pos dst @ take n src @ drop (pos + n) dst"

text \<open>
  The loop of \<open>renderSamples\<close> over \<^verbatim>\<open>parent->song.sample\<close>, from sample \<open>i\<close> on, with the
  local \<open>memPos\<close>. A \<^verbatim>\<open>continue\<close> goes on with the next sample, the \<^verbatim>\<open>break\<close> returns.
  The tables have 32768 entries; the model leaves them unchanged at an index beyond.
\<close>

fun renderLoop ::
  "Engine \<Rightarrow> nat \<Rightarrow> nat \<Rightarrow> DivSample list \<Rightarrow> nat \<times> 'c Platform \<Rightarrow> nat \<times> 'c Platform" where
  "renderLoop E sysID i [] (memPos, st) = (memPos, st)"
| "renderLoop E sysID i (s # ss) (memPos, st) =
     (case data8 s of
        None \<Rightarrow> renderLoop E sysID (Suc i) ss (memPos, st)
      | Some d \<Rightarrow>
          if \<not> renderOn s sysID
          then renderLoop E sysID (Suc i) ss
                 (memPos, st\<lparr>sampleOffSGU := (sampleOffSGU st)[i := 0]\<rparr>)
          else
            let paddedLen = length8 s in
            if memPos \<ge> getSampleMemCapacity E 0
            then (memPos, st\<lparr>warnings := warnings st @ [i]\<rparr>)
            else
              let st1 = (if memPos + paddedLen \<ge> getSampleMemCapacity E 0
                         then st\<lparr>sampleMem := memcpy_at (sampleMem st) memPos d
                                                 (getSampleMemCapacity E 0 - memPos),
                                 warnings := warnings st @ [i]\<rparr>
                         else st\<lparr>sampleMem := memcpy_at (sampleMem st) memPos d paddedLen,
                                 sampleLoaded := (sampleLoaded st)[i := True]\<rparr>);
                  st2 = st1\<lparr>sampleOffSGU := (sampleOffSGU st1)[i := word_of_nat memPos]\<rparr>;
                  st3 = st2\<lparr>memCompo := (memCompo st2)
                          \<lparr>compo_entries := compo_entries (memCompo st2)
                                              @ [(i, memPos, memPos + paddedLen)]\<rparr>\<rparr>
              in renderLoop E sysID (Suc i) ss (memPos + paddedLen, st3))"

text \<open>The head of \<open>renderSamples\<close>: the three \<^verbatim>\<open>memset\<close> calls and the fresh memory composition.\<close>

definition renderInit :: "Engine \<Rightarrow> 'c Platform \<Rightarrow> 'c Platform" where
  "renderInit E st =
     st\<lparr>sampleMem := replicate (pcmRamSize E) 0,
        sampleOffSGU := replicate 32768 0,
        sampleLoaded := replicate 32768 False,
        memCompo := \<lparr>compo_entries = [], compo_used = 0, compo_capacity = 0\<rparr>\<rparr>"

text \<open>\<open>samples\<close> is \<^verbatim>\<open>parent->song.sample\<close>, of length \<^verbatim>\<open>parent->song.sampleLen\<close>.\<close>

definition renderSamples ::
  "Engine \<Rightarrow> DivSample list \<Rightarrow> nat \<Rightarrow> 'c Platform \<Rightarrow> 'c Platform" where
  "renderSamples E samples sysID st =
     (case renderLoop E sysID 0 samples (0, renderInit E st) of
        (memPos, st1) \<Rightarrow>
          let st2 = st1\<lparr>sampleMemLen := memPos, sysIDCache := sysID\<rparr>;
              st3 = st2\<lparr>sgu := (sgu st2)
                      \<lparr>pcm_ram := memcpy_at (pcm_ram (sgu st2)) 0 (sampleMem st2) (pcmRamSize E)\<rparr>\<rparr>
          in st3\<lparr>memCompo := (memCompo st3)
                   \<lparr>compo_used := sampleMemLen st3, compo_capacity := pcmRamSize E\<rparr>\<rparr>)"

text \<open>The introspection calls; \<open>None\<close> is the null pointer.\<close>

datatype access_error = OutOfBounds

definition getSampleMem :: "int \<Rightarrow> 'c Platform \<Rightarrow> uchar list option" where
  "getSampleMem index st = (if index = 0 then Some (sampleMem st) else None)"

definition getSampleMemUsage :: "int \<Rightarrow> 'c Platform \<Rightarrow> nat" where
  "getSampleMemUsage index st = (if index = 0 then sampleMemLen st else 0)"

text \<open>
  \<open>isSampleLoaded\<close>. The read of \<^verbatim>\<open>sampleLoaded[sample]\<close> is checked against the array's
  length: a read outside it is the error \<open>OutOfBounds\<close>, so that no such read is a statement
  about the function's result.
\<close>

definition isSampleLoaded :: "int \<Rightarrow> int \<Rightarrow> 'c Platform \<Rightarrow> access_error + bool" where
  "isSampleLoaded index smp st =
     (if index \<noteq> 0 then Inr False
      else if smp < 0 \<or> smp > 32767 then Inr False
      else if nat smp < length (sampleLoaded st) then Inr (sampleLoaded st ! nat smp)
      else Inl OutOfBounds)"

definition getMemCompo :: "int \<Rightarrow> 'c Platform \<Rightarrow> DivMemoryComposition option" where
  "getMemCompo index st = (if index \<noteq> 0 then None else Some (memCompo st))"

subsection \<open>acquire\<close>

text \<open>
  The chip core (sound/sgu.h, outside the sources) as parameters: \<open>SGU_Write\<close> applies one
  register write, \<open>SGU_NextSample\<close> advances the chip by one sample and returns the pair
  (left, right), \<open>SGU_GetSample\<close> reads a channel's output, \<open>SGU_CHNS\<close> is the number of
  channels.
\<close>

record 'c ChipCore =
  SGU_Write :: "'c SGU \<Rightarrow> ushort \<Rightarrow> uchar \<Rightarrow> 'c SGU"
  SGU_NextSample :: "'c SGU \<Rightarrow> (int \<times> int) \<times> 'c SGU"
  SGU_GetSample :: "'c SGU \<Rightarrow> nat \<Rightarrow> int"
  SGU_CHNS :: nat

text \<open>
  Modelled from the spec: the macro \<open>CLAMP\<close> is defined outside the sources; the spec says
  that \<open>acquire\<close> clamps each sample to the 16-bit signed output range, so \<open>CLAMP x lo hi\<close> is
  \<open>x\<close> brought into \<open>lo..hi\<close>.
\<close>

definition CLAMP :: "int \<Rightarrow> int \<Rightarrow> int \<Rightarrow> int" where
  "CLAMP x lo hi = (if x < lo then lo else if x > hi then hi else x)"

text \<open>
  The loop \<^verbatim>\<open>while (!writes.empty())\<close> of \<open>acquire\<close>: the write at the front goes to the
  chip, then leaves the queue.
\<close>

function drainWrites :: "'c ChipCore \<Rightarrow> 'c Platform \<Rightarrow> 'c Platform" where
  "drainWrites C st =
     (case writes st of
        [] \<Rightarrow> st
      | w # ws \<Rightarrow> drainWrites C (st\<lparr>sgu := SGU_Write C (sgu st) (addr w) (val w), writes := ws\<rparr>))"
  by pat_completeness auto
termination
  by (relation "measure (\<lambda>(C, st). length (writes st))") auto

text \<open>
  One round of the loop over the output frames, for frame \<open>h\<close>: the state and the two
  output buffers \<^verbatim>\<open>buf[0]\<close> and \<^verbatim>\<open>buf[1]\<close>.
\<close>

definition acquireFrame ::
  "'c ChipCore \<Rightarrow> nat \<Rightarrow> 'c Platform \<times> int list \<times> int list \<Rightarrow> 'c Platform \<times> int list \<times> int list" where
  "acquireFrame C h p =
     (case p of (st, buf0, buf1) \<Rightarrow>
        let st1 = drainWrites C st;
            lr = fst (SGU_NextSample C (sgu st1));
            st2 = st1\<lparr>sgu := snd (SGU_NextSample C (sgu st1))\<rparr>;
            buf0' = buf0[h := CLAMP (fst lr) (- 32768) 32767];
            buf1' = buf1[h := CLAMP (snd lr) (- 32768) 32767];
            st3 = st2\<lparr>oscBuf := (\<lambda>i. if i < SGU_CHNS C
                                       then oscBuf st2 i @ [(h, SGU_GetSample C (sgu st2) i)]
                                       else oscBuf st2 i)\<rparr>
        in (st3, buf0', buf1'))"

text \<open>
  \<open>acquire\<close>: the frames 0 to \<open>len - 1\<close> in turn. The calls \<^verbatim>\<open>oscBuf[i]->begin(len)\<close> and
  \<^verbatim>\<open>oscBuf[i]->end(len)\<close> around the loop belong to the oscilloscope buffers (outside the
  sources) and leave the dispatch object and the output alone.
\<close>

definition acquire ::
  "'c ChipCore \<Rightarrow> nat \<Rightarrow> 'c Platform \<times> int list \<times> int list \<Rightarrow> 'c Platform \<times> int list \<times> int list" where
  "acquire C len p = fold (acquireFrame C) [0 ..< len] p"

subsection \<open>Sample data\<close>

text \<open>Concrete instruments, a channel and a dispatch object, for evaluating the functions.\<close>

definition demo_op :: Operator where
  "demo_op =
     \<lparr>op_enable = True, op_am = 0, op_ar = 15, op_dr = 9, op_mult = 1, op_rr = 7, op_sl = 4,
      op_tl = 15, op_rs = 0, op_dt = 0, op_d2r = 0, op_dam = 0, op_dvb = 0, op_egt = 0,
      op_ksl = 0, op_sus = 0, op_vib = 0, op_ws = 0, op_ksr = 0\<rparr>"

definition demo_fm :: DivInstrumentFM where
  "demo_fm = \<lparr>fm_alg = 0, fm_fb = 3, fm_fms = 0, fm_ams = 0, fm_op = (\<lambda>i. demo_op)\<rparr>"

definition demo_esfm :: DivInstrumentESFM where
  "demo_esfm =
     \<lparr>esfm_op = (\<lambda>i. \<lparr>opE_delay = 0, opE_outLvl = 0, opE_modIn = 0, opE_fixed = 0\<rparr>)\<rparr>"

definition demo_c64 :: DivInstrumentC64 where
  "demo_c64 =
     \<lparr>c64_triOn = False, c64_sawOn = True, c64_pulseOn = False, c64_noiseOn = False,
      c64_a = 15, c64_d = 9, c64_s = 15, c64_r = 3, c64_duty = 2048,
      c64_toFilter = True, c64_initFilter = True, c64_resetDuty = False,
      c64_res = 0, c64_cut = 2047, c64_hp = False, c64_lp = True, c64_bp = False\<rparr>"

definition demo_ins :: "DivInstrumentType \<Rightarrow> DivInstrument" where
  "demo_ins t =
     \<lparr>ins_type = t, ins_fm = demo_fm, ins_esfm = demo_esfm, ins_c64 = demo_c64,
      ins_amiga_useSample = False, ins_sid2_noiseMode = 0\<rparr>"

definition demo_waves :: SguWaves where
  "demo_waves =
     \<lparr>SGU_WAVE_SINE = 0, SGU_WAVE_TRIANGLE = 1, SGU_WAVE_SAWTOOTH = 2, SGU_WAVE_PULSE = 3,
      SGU_WAVE_NOISE = 4, SGU_WAVE_PERIODIC_NOISE = 5\<rparr>"

definition demo_chan :: Channel where
  "demo_chan =
     \<lparr>freq = 0, baseFreq = 0, pitch = 0, pitch2 = 0, arpOff = 0, baseNoteOverride = 0,
      fixedArp = False, insChanged = True, freqChanged = False, keyOn = False, keyOff = False,
      state_fm = demo_fm, state_esfm = demo_esfm,
      cutoff = 0xffff, baseCutoff = 0xffff, res = 0, control = 0, pan = 0, duty = 63,
      pcm = False, pcmLoop = False, phaseReset = False, filterPhaseReset = False,
      timerSync = False, freqSweep = False, volSweep = False, cutSweep = False,
      freqSweepP = 0, volSweepP = 0, cutSweepP = 0, freqSweepB = 0, volSweepB = 0,
      cutSweepB = 0, freqSweepV = 0, volSweepV = 0, cutSweepV = 0, syncTimer = 0,
      hasOffset = 0, sample = -1, released = False, cutoff_slide = 0, pw_slide = 0,
      virtual_duty = 0, ringMask = 0, syncMask = 0, key = False\<rparr>"

definition demo_platform :: "unit Platform" where
  "demo_platform =
     \<lparr>chan = (\<lambda>i. demo_chan), writes = [], regPool = replicate 128 0,
      skipRegisterWrites = False, dumpWrites = False, regWrites = [],
      sgu = \<lparr>pcm_ram = replicate 16 0, core = ()\<rparr>, oscBuf = (\<lambda>i. []),
      sampleOffSGU = replicate 32768 0, sampleLoaded = replicate 32768 False,
      sampleMem = replicate 16 0, sampleMemLen = 0,
      memCompo = \<lparr>compo_entries = [], compo_used = 0, compo_capacity = 16\<rparr>,
      sysIDCache = 0, warnings = []\<rparr>"

definition demo_engine :: Engine where
  "demo_engine =
     \<lparr>calcFreq = (\<lambda>b p a f p2. b + p + a + p2), getSample = (\<lambda>n. None), sampleLen = 0,
      scaleFreq = (\<lambda>f s. f div 4), pcmRamSize = 16\<rparr>"

text \<open>Channel 0 with a note starting well above the frequency range.\<close>

definition demo_keyOn :: "unit Platform" where
  "demo_keyOn = updChan 0 (\<lambda>c. c\<lparr>keyOn := True, baseFreq := 70000\<rparr>) demo_platform"


text \<open>Channel 0 with a frequency change pending and a base frequency below the range.\<close>

definition demo_lowFreq :: "unit Platform" where
  "demo_lowFreq = updChan 0 (\<lambda>c. c\<lparr>freqChanged := True, baseFreq := - 5\<rparr>) demo_platform"


text \<open>
  A chip that logs the values written to it and whose next sample grows with the number of
  values logged: left is 20000 times that number, right its negation.
\<close>

definition demo_chip :: "unit ChipCore" where
  "demo_chip =
     \<lparr>SGU_Write = (\<lambda>c a v. c\<lparr>pcm_ram := pcm_ram c @ [v]\<rparr>),
      SGU_NextSample = (\<lambda>c. ((20000 * int (length (pcm_ram c)), - 20000 * int (length (pcm_ram c))), c)),
      SGU_GetSample = (\<lambda>c i. 0),
      SGU_CHNS = 2\<rparr>"

text \<open>The dispatch object with two writes pending.\<close>

definition demo_pending :: "unit Platform" where
  "demo_pending = demo_platform\<lparr>writes := [\<lparr>addr = 36, val = 1\<rparr>, \<lparr>addr = 32, val = 7\<rparr>]\<rparr>"

section \<open>Properties\<close>

subsection \<open>Register writes leave the channels alone\<close>

lemmas reg_defs =
  SGU_OP_PER_CH_def SGU_OP_REGS_def SGU_REGS_PER_CH_def SGU_CH_BASE_def
  SGU1_CHN_FREQ_L_def SGU1_CHN_FREQ_H_def SGU1_CHN_VOL_def SGU1_CHN_PAN_def
  SGU1_CHN_FLAGS0_def SGU1_CHN_FLAGS1_def SGU1_CHN_CUTOFF_L_def SGU1_CHN_CUTOFF_H_def
  SGU1_CHN_DUTY_def SGU1_CHN_RESON_def SGU1_CHN_PCM_POS_L_def SGU1_CHN_PCM_POS_H_def
  SGU1_CHN_PCM_END_L_def SGU1_CHN_PCM_END_H_def SGU1_CHN_PCM_RST_L_def
  SGU1_CHN_PCM_RST_H_def

lemma chan_rWrite [simp]: "chan (rWrite a v st) = chan st"
  by (simp add: rWrite_def Let_def)

lemma skip_rWrite [simp]: "skipRegisterWrites (rWrite a v st) = skipRegisterWrites st"
  by (simp add: rWrite_def Let_def)

lemma writes_rWrite:
  "writes (rWrite a v st) =
     (if skipRegisterWrites st then writes st
      else writes st @ [\<lparr>addr = word_of_nat a, val = word_of_int v\<rparr>])"
  by (simp add: rWrite_def Let_def)

lemma chan_chWrite [simp]: "chan (chWrite c a v st) = chan st"
  by (simp add: chWrite_def)

lemma skip_chWrite [simp]: "skipRegisterWrites (chWrite c a v st) = skipRegisterWrites st"
  by (simp add: chWrite_def)

lemma writes_chWrite:
  "writes (chWrite c a v st) =
     (if skipRegisterWrites st then writes st
      else writes st @
        [\<lparr>addr = word_of_nat (c * SGU_REGS_PER_CH + SGU_CH_BASE + a), val = word_of_int v\<rparr>])"
  by (simp add: chWrite_def writes_rWrite)

subsection \<open>writeControlUpper\<close>

lemma chan_writeControlUpper:
  "chan (writeControlUpper ch st) =
     (chan st)(ch := (chan st ch)\<lparr>phaseReset := False, filterPhaseReset := False\<rparr>)"
  by (simp add: writeControlUpper_def Let_def)

lemma skip_writeControlUpper [simp]:
  "skipRegisterWrites (writeControlUpper ch st) = skipRegisterWrites st"
  by (simp add: writeControlUpper_def Let_def)

lemma writes_writeControlUpper:
  "writes (writeControlUpper ch st) =
     (if skipRegisterWrites st then writes st
      else writes st @
        [\<lparr>addr = word_of_nat (ch * SGU_REGS_PER_CH + SGU_CH_BASE + SGU1_CHN_FLAGS1),
          val = flags1 (chan st ch)\<rparr>])"
  by (simp add: writeControlUpper_def Let_def writes_chWrite)

lemma flags1_reset_bits:
  "flags1 (c\<lparr>phaseReset := False, filterPhaseReset := False\<rparr>) AND 3 = 0"
  by (simp add: flags1_def word_bw_assocs word_bw_comms bit.conj_disj_distrib2)

text \<open>
  C10. After \<open>writeControlUpper ch\<close> the channel differs from before exactly in that
  \<open>phaseReset\<close> and \<open>filterPhaseReset\<close> are false (so \<open>pcmLoop\<close>, \<open>timerSync\<close>,
  \<open>freqSweep\<close>, \<open>volSweep\<close> and \<open>cutSweep\<close> are as they were, and so is every other
  channel); the FLAGS1 byte a later call computes has both reset bits clear, and that byte
  is what a second call queues.
\<close>

theorem writeControlUpper_frame:
  "chan (writeControlUpper ch st) =
     (chan st)(ch := (chan st ch)\<lparr>phaseReset := False, filterPhaseReset := False\<rparr>)
   \<and> \<not> phaseReset (chan (writeControlUpper ch st) ch)
   \<and> \<not> filterPhaseReset (chan (writeControlUpper ch st) ch)
   \<and> pcmLoop (chan (writeControlUpper ch st) ch) = pcmLoop (chan st ch)
   \<and> timerSync (chan (writeControlUpper ch st) ch) = timerSync (chan st ch)
   \<and> freqSweep (chan (writeControlUpper ch st) ch) = freqSweep (chan st ch)
   \<and> volSweep (chan (writeControlUpper ch st) ch) = volSweep (chan st ch)
   \<and> cutSweep (chan (writeControlUpper ch st) ch) = cutSweep (chan st ch)
   \<and> flags1 (chan (writeControlUpper ch st) ch) AND 3 = 0
   \<and> writes (writeControlUpper ch (writeControlUpper ch st)) =
       (if skipRegisterWrites st then writes (writeControlUpper ch st)
        else writes (writeControlUpper ch st) @
          [\<lparr>addr = word_of_nat (ch * SGU_REGS_PER_CH + SGU_CH_BASE + SGU1_CHN_FLAGS1),
            val = flags1 (chan (writeControlUpper ch st) ch)\<rparr>])"
  by (simp add: chan_writeControlUpper flags1_reset_bits writes_writeControlUpper)

subsection \<open>The width conversions in closed form\<close>

lemma push_or_add:
  fixes y c :: uchar
  assumes "c < 2 ^ k"
  shows "push_bit k y OR c = push_bit k y + c"
proof (rule disjunctive_add [symmetric])
  fix n
  have "bit c n \<Longrightarrow> n < k"
    using assms by (metis bit_take_bit_iff less_mask_eq take_bit_eq_mask)
  moreover have "bit (push_bit k y) n \<Longrightarrow> k \<le> n"
    by (simp only: bit_push_bit_iff)
  ultimately show "\<not> bit (push_bit k y) n \<or> \<not> bit c n"
    by fastforce
qed

lemma and_mod16: "unat ((x::uchar) AND 0x0f) = unat x mod 16"
proof -
  have "x AND 0x0f = take_bit 4 x" by (simp add: take_bit_eq_mask mask_eq_exp_minus_1)
  then show ?thesis by (simp add: unsigned_take_bit_eq take_bit_eq_mod unat_mod)
qed

lemma and_mod64: "unat ((x::uchar) AND 0x3f) = unat x mod 64"
proof -
  have "x AND 0x3f = take_bit 6 x" by (simp add: take_bit_eq_mask mask_eq_exp_minus_1)
  then show ?thesis by (simp add: unsigned_take_bit_eq take_bit_eq_mod unat_mod)
qed

lemma widen4to5_unat: "unat (widen4to5 x) = 2 * (unat x mod 16) + 1"
proof -
  have p: "push_bit 1 y OR 1 = push_bit 1 y + 1" for y :: uchar
    by (rule push_or_add) simp
  have "unat x mod 16 < 16" by simp
  then show ?thesis
    unfolding widen4to5_def p
    by (simp add: push_bit_eq_mult unat_word_ariths and_mod16)
qed

lemma widen6to7_unat: "unat (widen6to7 x) = 2 * (unat x mod 64) + 1"
proof -
  have p: "push_bit 1 y OR 1 = push_bit 1 y + 1" for y :: uchar
    by (rule push_or_add) simp
  have "unat x mod 64 < 64" by simp
  then show ?thesis
    unfolding widen6to7_def p
    by (simp add: push_bit_eq_mult unat_word_ariths and_mod64)
qed

lemma opllCarrierTl_unat: "unat (opllCarrierTl x) = 8 * (unat x mod 16) + 4"
proof -
  have p: "push_bit 3 y OR 4 = push_bit 3 y + 4" for y :: uchar
    by (rule push_or_add) simp
  have "unat x mod 16 < 16" by simp
  then show ?thesis
    unfolding opllCarrierTl_def p
    by (simp add: push_bit_eq_mult unat_word_ariths and_mod16)
qed

lemma c64Cutoff_eq: "c64Cutoff c = int ((min (unat c) 2047 * 65535 + 1023) div 2047)"
proof -
  define k :: uint32 where "k = (if c > 2047 then 2047 else ucast c)"
  have uc: "unat (ucast c :: uint32) = unat c"
    using unsigned_less [of c, where 'a = nat]
    by (simp add: unsigned_ucast_eq take_bit_eq_mod)
  have k: "unat k = min (unat c) 2047"
    by (auto simp: k_def word_less_nat_alt uc min_def)
  have le: "unat k \<le> 2047" using k by simp
  have "unat k * 65535 + 1023 \<le> 2047 * 65535 + 1023" using le by simp
  then have lt: "unat k * 65535 + 1023 < 2 ^ 32" by simp
  have m: "unat (k * 65535 + 1023) = unat k * 65535 + 1023"
    using lt by (simp add: unat_word_ariths)
  have d: "unat ((k * 65535 + 1023) div 2047) = (unat k * 65535 + 1023) div 2047"
    by (simp add: unat_div m)
  have "(unat k * 65535 + 1023) div 2047 \<le> (2047 * 65535 + 1023) div 2047"
    using le by (intro div_le_mono) simp
  then have dl: "(unat k * 65535 + 1023) div 2047 < 2 ^ 16" by simp
  have "unat (ucast ((k * 65535 + 1023) div 2047) :: ushort) = (unat k * 65535 + 1023) div 2047"
    using dl by (simp add: unsigned_ucast_eq take_bit_eq_mod d)
  then have "uint (ucast ((k * 65535 + 1023) div 2047) :: ushort) = int ((unat k * 65535 + 1023) div 2047)"
    by (simp add: uint_nat)
  then show ?thesis
    by (simp add: c64Cutoff_def Let_def k_def [symmetric] k)
qed

subsection \<open>What commitState stores\<close>

lemma upt4: "[0 ..< 4] = [0, 1, 2, Suc 2]" by (simp add: upt_rec numeral_eq_Suc)
lemma upt3: "[0 ..< 3] = [0, 1, 2]" by (simp add: upt_rec numeral_eq_Suc)
lemma upt2: "[0 ..< 2] = [0, 1]" by (simp add: upt_rec numeral_eq_Suc)
lemma upt24: "[2 ..< 4] = [2, 3]" by (simp add: upt_rec numeral_eq_Suc)

lemma chan_opWrite [simp]: "chan (opWrite c o' a v st) = chan st"
  by (simp add: opWrite_def)

lemma chan_applyOpRegs [simp]: "chan (applyOpRegs ch o' st) = chan st"
  by (simp add: applyOpRegs_def Let_def)

lemma chan_fold_applyOpRegs [simp]: "chan (fold (applyOpRegs ch) os st) = chan st"
  by (induction os arbitrary: st) simp_all

lemma chan_writeControl [simp]: "chan (writeControl ch st) = chan st"
  by (simp add: writeControl_def)

lemma chan_updChan [simp]: "chan (updChan ch f st) = (chan st)(ch := f (chan st ch))"
  by (simp add: updChan_def)

lemma convEnv_fm_op [simp]: "convEnv W ins (fm\<lparr>fm_op := g\<rparr>) o' op = convEnv W ins fm o' op"
  by (simp add: convEnv_def split: DivInstrumentType.splits)

lemma commitOps_op:
  "fm_op (commitOps W ins fm) i =
     (if i < 4 then convEnv W ins fm i (convWave W (ins_type ins) (fm_op fm i)) else fm_op fm i)"
proof -
  have "i = 0 \<or> i = 1 \<or> i = 2 \<or> i = 3 \<or> 4 \<le> i" by arith
  then show ?thesis
    by (auto simp add: commitOps_def SGU_OP_PER_CH_def upt4 commitOp_def)
qed

lemma commitOps_globals [simp]:
  "fm_alg (commitOps W ins fm) = fm_alg fm"
  "fm_fb (commitOps W ins fm) = fm_fb fm"
  "fm_ams (commitOps W ins fm) = fm_ams fm"
  "fm_fms (commitOps W ins fm) = fm_fms fm"
  by (simp_all add: commitOps_def SGU_OP_PER_CH_def upt4 commitOp_def)

lemma fst_twoOpRouting:
  "fm_op (fst (twoOpRouting fm e)) i =
     (if i = 2 \<or> i = 3 then (fm_op fm i)\<lparr>op_enable := False, op_tl := 127\<rparr> else fm_op fm i)"
  by (simp add: twoOpRouting_def Let_def upt24 silenceOp_def)

lemma chan_c64Channel_state [simp]:
  "state_fm (chan (c64Channel ch c64 st) ch') = state_fm (chan st ch')"
  by (simp add: c64Channel_def c64Duty_def c64FilterSet_def Let_def split: prod.splits if_splits)

lemma commitState_fm:
  assumes "ins_type ins \<noteq> DIV_INS_AMIGA" "\<not> ins_amiga_useSample ins"
  shows "state_fm (chan (commitState W E0 ch (Some ins) st) ch) =
           fst (convAlg E0 ch ins (commitOps W ins (ins_fm ins), ins_esfm ins,
                  updChan ch (\<lambda>c. c\<lparr>pcm := False\<rparr>) st))"
  using assms by (simp add: commitState_def Let_def split: prod.splits)

lemma stored_rates:
  assumes "ins_type ins \<in> {DIV_INS_ESFM, DIV_INS_OPL, DIV_INS_OPLL}" "\<not> ins_amiga_useSample ins" "i < 4"
  shows "op_ar (storedOp W E0 ch ins st i) = widen4to5 (op_ar (fm_op (ins_fm ins) i))"
    and "op_dr (storedOp W E0 ch ins st i) = widen4to5 (op_dr (fm_op (ins_fm ins) i))"
proof -
  have "i = 0 \<or> i = 1 \<or> i = 2 \<or> i = 3" using assms(3) by arith
  then show "op_ar (storedOp W E0 ch ins st i) = widen4to5 (op_ar (fm_op (ins_fm ins) i))"
    using assms
    by (auto simp add: commitState_fm convAlg_def commitOps_op convEnv_def convWave_def
        fst_twoOpRouting split_def Let_def upt2 opllKsr_def)
  from \<open>i = 0 \<or> i = 1 \<or> i = 2 \<or> i = 3\<close>
  show "op_dr (storedOp W E0 ch ins st i) = widen4to5 (op_dr (fm_op (ins_fm ins) i))"
    using assms
    by (auto simp add: commitState_fm convAlg_def commitOps_op convEnv_def convWave_def
        fst_twoOpRouting split_def Let_def upt2 opllKsr_def)
qed

lemma stored_tl:
  assumes "ins_type ins = DIV_INS_ESFM \<and> i < 4 \<or> ins_type ins = DIV_INS_OPL \<and> i < 2
           \<or> ins_type ins = DIV_INS_OPLL \<and> i = 0"
    and "\<not> ins_amiga_useSample ins"
  shows "op_tl (storedOp W E0 ch ins st i) = widen6to7 (op_tl (fm_op (ins_fm ins) i))"
  using assms
  by (auto simp add: commitState_fm convAlg_def commitOps_op convEnv_def convWave_def
        fst_twoOpRouting split_def Let_def upt2 opllKsr_def)

lemma stored_opll_carrier:
  assumes "ins_type ins = DIV_INS_OPLL" "\<not> ins_amiga_useSample ins"
  shows "op_tl (storedOp W E0 ch ins st 1) = opllCarrierTl (opllCarrierTl (op_tl (fm_op (ins_fm ins) 1)))"
  using assms
  by (auto simp add: commitState_fm convAlg_def commitOps_op convEnv_def convWave_def
        fst_twoOpRouting split_def Let_def upt2 opllKsr_def)

lemma stored_c64_carrier:
  assumes "ins_type ins = DIV_INS_C64 \<or> ins_type ins = DIV_INS_SID2" "\<not> ins_amiga_useSample ins"
  shows "storedOp W E0 ch ins st 3 =
           c64Carrier (ins_c64 ins)
             (sguC64Wave W (ins_c64 ins) (ins_type ins = DIV_INS_SID2 \<and> ins_sid2_noiseMode ins \<noteq> 0))
             (fm_op (ins_fm ins) 3)"
  using assms
  by (auto simp add: commitState_fm convAlg_def commitOps_op convEnv_def convWave_def)


lemma mod_id16: "(y::uchar) \<le> 15 \<Longrightarrow> x \<le> y \<Longrightarrow> unat x mod 16 = unat x \<and> unat y mod 16 = unat y \<and> unat x \<le> unat y"
  by (simp add: word_le_nat_alt)

lemma widen4to5_mono: "x \<le> y \<Longrightarrow> y \<le> 15 \<Longrightarrow> widen4to5 x \<le> widen4to5 y"
  using mod_id16 [of y x] by (simp add: word_le_nat_alt widen4to5_unat)

lemma widen6to7_mono: "x \<le> y \<Longrightarrow> y \<le> 63 \<Longrightarrow> widen6to7 x \<le> widen6to7 y"
  by (simp add: word_le_nat_alt widen6to7_unat)

lemma opllCarrierTl_mono: "x \<le> y \<Longrightarrow> y \<le> 15 \<Longrightarrow> opllCarrierTl x \<le> opllCarrierTl y"
  using mod_id16 [of y x] by (simp add: word_le_nat_alt opllCarrierTl_unat)

lemma c64Cutoff_mono: "x \<le> y \<Longrightarrow> c64Cutoff x \<le> c64Cutoff y"
  unfolding c64Cutoff_eq
  by (auto simp add: word_le_nat_alt intro!: div_le_mono)

lemma conv_max:
  "widen4to5 15 = 31" "widen6to7 63 = 127" "opllCarrierTl 15 = 124" "c64Cutoff 2047 = 65535"
  by (simp_all add: widen4to5_def widen6to7_def opllCarrierTl_def c64Cutoff_def)

lemma cutoff_c64Channel:
  "cutoff (chan (c64Channel ch c64 st) ch) =
     (if c64_toFilter c64 \<and> c64_initFilter c64 then c64Cutoff (c64_cut c64) else cutoff (chan st ch))"
  by (simp add: c64Channel_def c64Duty_def c64FilterSet_def Let_def split: prod.splits if_splits)

lemma stored_cutoff:
  assumes "ins_type ins = DIV_INS_C64 \<or> ins_type ins = DIV_INS_SID2" "\<not> ins_amiga_useSample ins"
    and "c64_toFilter (ins_c64 ins)" "c64_initFilter (ins_c64 ins)"
  shows "cutoff (chan (commitState W E0 ch (Some ins) st) ch) = c64Cutoff (c64_cut (ins_c64 ins))"
  using assms
  by (auto simp add: commitState_def convAlg_def Let_def cutoff_c64Channel split: prod.splits)



subsection \<open>Width conversions (C1)\<close>

text \<open>
  C1, as the code has it. The widenings that \<open>commitState\<close> stores are \<open>widen4to5\<close> for the
  attack and decay rates of the ESFM, OPL and OPLL kinds and of the C64 and SID2 carrier,
  \<open>widen6to7\<close> for the total level (ESFM operators, OPL operators 0 and 1, the OPLL
  modulator), and \<open>c64Cutoff\<close> for the filter cutoff. Each is monotonically non-decreasing
  over its legacy domain and maps the legacy maximum to the native maximum (15 to 31, 63 to
  127, 2047 to 65535). The OPLL carrier step \<open>opllCarrierTl\<close> is monotonically
  non-decreasing over 0..15 as well, but maps the legacy maximum 15 to 124, not to 127.
\<close>

theorem commitState_width_conversions:
  "(ins_type ins \<in> {DIV_INS_ESFM, DIV_INS_OPL, DIV_INS_OPLL} \<and> \<not> ins_amiga_useSample ins \<and> i < 4
      \<longrightarrow> op_ar (storedOp W E0 ch ins st i) = widen4to5 (op_ar (fm_op (ins_fm ins) i))
        \<and> op_dr (storedOp W E0 ch ins st i) = widen4to5 (op_dr (fm_op (ins_fm ins) i)))
   \<and> ((ins_type ins = DIV_INS_ESFM \<and> i < 4 \<or> ins_type ins = DIV_INS_OPL \<and> i < 2
        \<or> ins_type ins = DIV_INS_OPLL \<and> i = 0) \<and> \<not> ins_amiga_useSample ins
      \<longrightarrow> op_tl (storedOp W E0 ch ins st i) = widen6to7 (op_tl (fm_op (ins_fm ins) i)))
   \<and> ((ins_type ins = DIV_INS_C64 \<or> ins_type ins = DIV_INS_SID2) \<and> \<not> ins_amiga_useSample ins
      \<longrightarrow> op_ar (storedOp W E0 ch ins st 3) = widen4to5 (c64_a (ins_c64 ins))
        \<and> op_dr (storedOp W E0 ch ins st 3) =
            widen4to5 (if c64_s (ins_c64 ins) = 15 then 0 else c64_d (ins_c64 ins) AND 0x0f))
   \<and> ((ins_type ins = DIV_INS_C64 \<or> ins_type ins = DIV_INS_SID2) \<and> \<not> ins_amiga_useSample ins
        \<and> c64_toFilter (ins_c64 ins) \<and> c64_initFilter (ins_c64 ins)
      \<longrightarrow> cutoff (chan (commitState W E0 ch (Some ins) st) ch) = c64Cutoff (c64_cut (ins_c64 ins)))
   \<and> (\<forall>x y. x \<le> y \<and> y \<le> 15 \<longrightarrow> widen4to5 x \<le> widen4to5 y) \<and> widen4to5 15 = 31
   \<and> (\<forall>x y. x \<le> y \<and> y \<le> 63 \<longrightarrow> widen6to7 x \<le> widen6to7 y) \<and> widen6to7 63 = 127
   \<and> (\<forall>x y. x \<le> y \<longrightarrow> c64Cutoff x \<le> c64Cutoff y) \<and> c64Cutoff 2047 = 65535
   \<and> (\<forall>x y. x \<le> y \<and> y \<le> 15 \<longrightarrow> opllCarrierTl x \<le> opllCarrierTl y)
   \<and> opllCarrierTl 15 = 124"
proof -
  have rates: "ins_type ins \<in> {DIV_INS_ESFM, DIV_INS_OPL, DIV_INS_OPLL} \<and> \<not> ins_amiga_useSample ins \<and> i < 4
      \<longrightarrow> op_ar (storedOp W E0 ch ins st i) = widen4to5 (op_ar (fm_op (ins_fm ins) i))
        \<and> op_dr (storedOp W E0 ch ins st i) = widen4to5 (op_dr (fm_op (ins_fm ins) i))"
    using stored_rates [of ins i W E0 ch st] by blast
  have tl: "(ins_type ins = DIV_INS_ESFM \<and> i < 4 \<or> ins_type ins = DIV_INS_OPL \<and> i < 2
        \<or> ins_type ins = DIV_INS_OPLL \<and> i = 0) \<and> \<not> ins_amiga_useSample ins
      \<longrightarrow> op_tl (storedOp W E0 ch ins st i) = widen6to7 (op_tl (fm_op (ins_fm ins) i))"
    using stored_tl [of ins i W E0 ch st] by blast
  have c64: "(ins_type ins = DIV_INS_C64 \<or> ins_type ins = DIV_INS_SID2) \<and> \<not> ins_amiga_useSample ins
      \<longrightarrow> op_ar (storedOp W E0 ch ins st 3) = widen4to5 (c64_a (ins_c64 ins))
        \<and> op_dr (storedOp W E0 ch ins st 3) =
            widen4to5 (if c64_s (ins_c64 ins) = 15 then 0 else c64_d (ins_c64 ins) AND 0x0f)"
    using stored_c64_carrier [of ins W E0 ch st] by (simp add: c64Carrier_def Let_def)
  have cut: "(ins_type ins = DIV_INS_C64 \<or> ins_type ins = DIV_INS_SID2) \<and> \<not> ins_amiga_useSample ins
        \<and> c64_toFilter (ins_c64 ins) \<and> c64_initFilter (ins_c64 ins)
      \<longrightarrow> cutoff (chan (commitState W E0 ch (Some ins) st) ch) = c64Cutoff (c64_cut (ins_c64 ins))"
    using stored_cutoff [of ins W E0 ch st] by blast
  show ?thesis
    using rates tl c64 cut widen4to5_mono widen6to7_mono c64Cutoff_mono opllCarrierTl_mono conv_max
    by blast
qed


text \<open>The theorem at an ESFM and a SID2 instrument, and at sample points of the conversions.\<close>

theorem commitState_width_conversions_witness:
  "op_ar (storedOp demo_waves demo_esfm 0 (demo_ins DIV_INS_ESFM) demo_platform 2) = 31
   \<and> op_dr (storedOp demo_waves demo_esfm 0 (demo_ins DIV_INS_ESFM) demo_platform 2) = 19
   \<and> op_tl (storedOp demo_waves demo_esfm 0 (demo_ins DIV_INS_ESFM) demo_platform 2) = 31
   \<and> op_ar (storedOp demo_waves demo_esfm 0 (demo_ins DIV_INS_SID2) demo_platform 3) = 31
   \<and> cutoff (chan (commitState demo_waves demo_esfm 0 (Some (demo_ins DIV_INS_SID2)) demo_platform) 0) = 65535
   \<and> widen4to5 3 \<le> widen4to5 15 \<and> widen6to7 3 \<le> widen6to7 63
   \<and> c64Cutoff 100 \<le> c64Cutoff 2047 \<and> opllCarrierTl 3 \<le> opllCarrierTl 15"
proof -
  note e = commitState_width_conversions
    [where ins = "demo_ins DIV_INS_ESFM" and i = 2 and W = demo_waves and ?E0.0 = demo_esfm
       and ch = 0 and st = demo_platform]
  note c = commitState_width_conversions
    [where ins = "demo_ins DIV_INS_SID2" and i = 2 and W = demo_waves and ?E0.0 = demo_esfm
       and ch = 0 and st = demo_platform]
  have 1: "op_ar (storedOp demo_waves demo_esfm 0 (demo_ins DIV_INS_ESFM) demo_platform 2) = 31
   \<and> op_dr (storedOp demo_waves demo_esfm 0 (demo_ins DIV_INS_ESFM) demo_platform 2) = 19
   \<and> op_tl (storedOp demo_waves demo_esfm 0 (demo_ins DIV_INS_ESFM) demo_platform 2) = 31"
    using e by (simp add: demo_ins_def demo_fm_def demo_op_def widen4to5_def widen6to7_def)
  have 2: "op_ar (storedOp demo_waves demo_esfm 0 (demo_ins DIV_INS_SID2) demo_platform 3) = 31
   \<and> cutoff (chan (commitState demo_waves demo_esfm 0 (Some (demo_ins DIV_INS_SID2)) demo_platform) 0) = 65535"
    using c by (simp add: demo_ins_def demo_c64_def)
  have 3: "widen4to5 3 \<le> widen4to5 15 \<and> widen6to7 3 \<le> widen6to7 63
   \<and> c64Cutoff 100 \<le> c64Cutoff 2047 \<and> opllCarrierTl 3 \<le> opllCarrierTl 15"
  proof -
    have "(3::uchar) \<le> 15 \<and> (15::uchar) \<le> 15" "(3::uchar) \<le> 63 \<and> (63::uchar) \<le> 63"
      "(100::ushort) \<le> 2047"
      by simp_all
    with e show ?thesis by blast
  qed
  from 1 2 3 show ?thesis by blast
qed

text \<open>
  The claim as stated fails for the OPLL carrier: the step maps 15 to 124, and the level
  that \<open>commitState\<close> leaves in operator 1 for a legacy level of 15 is 100.
\<close>

theorem opll_carrier_max_counterexample:
  "opllCarrierTl 15 = 124 \<and> opllCarrierTl 15 \<noteq> 127
   \<and> op_tl (fm_op (ins_fm (demo_ins DIV_INS_OPLL)) 1) = 15
   \<and> op_tl (storedOp demo_waves demo_esfm 0 (demo_ins DIV_INS_OPLL) demo_platform 1) = 100"
  using stored_opll_carrier [of "demo_ins DIV_INS_OPLL" demo_waves demo_esfm 0 demo_platform]
  by (simp add: demo_ins_def demo_fm_def demo_op_def opllCarrierTl_def)

subsection \<open>Sustain 15 on the C64 and SID2 carrier (C3)\<close>

text \<open>
  C3, as the code has it. For a C64 or SID2 instrument (not played as a sample) whose legacy
  sustain is 15, the legacy decay is taken as 0 whatever the decay field holds, and the
  native decay rate stored for operator 3 is its widening \<open>(0 << 1) | 1 = 1\<close>.
\<close>

theorem c64_sustain15_decay:
  "(ins_type ins = DIV_INS_C64 \<or> ins_type ins = DIV_INS_SID2) \<and> \<not> ins_amiga_useSample ins
     \<and> c64_s (ins_c64 ins) = 15
   \<longrightarrow> op_dr (storedOp W E0 ch ins st 3) = 1"
  using stored_c64_carrier [of ins W E0 ch st]
  by (simp add: c64Carrier_def Let_def widen4to5_def)

theorem c64_sustain15_decay_witness:
  "op_dr (storedOp demo_waves demo_esfm 0 (demo_ins DIV_INS_SID2) demo_platform 3) = 1"
  using c64_sustain15_decay
    [where ins = "demo_ins DIV_INS_SID2" and W = demo_waves and ?E0.0 = demo_esfm
       and ch = 0 and st = demo_platform]
  by (simp add: demo_ins_def demo_c64_def)

text \<open>With sustain 15 and decay 9 the stored decay rate is 1, not 0.\<close>

theorem c64_sustain15_decay_counterexample:
  "c64_s (ins_c64 (demo_ins DIV_INS_C64)) = 15 \<and> c64_d (ins_c64 (demo_ins DIV_INS_C64)) = 9
   \<and> op_dr (storedOp demo_waves demo_esfm 0 (demo_ins DIV_INS_C64) demo_platform 3) = 1
   \<and> op_dr (storedOp demo_waves demo_esfm 0 (demo_ins DIV_INS_C64) demo_platform 3) \<noteq> 0"
  by (simp add: stored_c64_carrier c64Carrier_def Let_def widen4to5_def demo_ins_def demo_c64_def)

subsection \<open>Instruments of an unrecognised kind (C8)\<close>


lemma skip_opWrite [simp]: "skipRegisterWrites (opWrite c o' a v st) = skipRegisterWrites st"
  by (simp add: opWrite_def)


lemma skip_applyOpRegs [simp]: "skipRegisterWrites (applyOpRegs ch o' st) = skipRegisterWrites st"
  by (simp add: applyOpRegs_def Let_def)





subsection \<open>tick: key edges and frequency (C2, C4)\<close>

lemma writes_updChan [simp]: "writes (updChan i f st) = writes st"
  by (simp add: updChan_def)

lemma skip_updChan [simp]: "skipRegisterWrites (updChan i f st) = skipRegisterWrites st"
  by (simp add: updChan_def)

lemma skip_writeControl [simp]: "skipRegisterWrites (writeControl ch st) = skipRegisterWrites st"
  by (simp add: writeControl_def)

lemma writes_chWrite':
  "writes (chWrite c a v st) =
     (if skipRegisterWrites st then writes st
      else writes st @ [\<lparr>addr = chAddr c a, val = word_of_int v\<rparr>])"
  by (simp add: writes_chWrite chAddr_def)

lemma writes_writeControl:
  "writes (writeControl ch st) =
     (if skipRegisterWrites st then writes st
      else writes st @ [\<lparr>addr = chAddr ch SGU1_CHN_FLAGS0, val = flags0 (chan st ch)\<rparr>])"
  by (simp add: writeControl_def writes_chWrite')

lemma writes_writeControlUpper':
  "writes (writeControlUpper ch st) =
     (if skipRegisterWrites st then writes st
      else writes st @ [\<lparr>addr = chAddr ch SGU1_CHN_FLAGS1, val = flags1 (chan st ch)\<rparr>])"
  by (simp add: writes_writeControlUpper chAddr_def)

subsection \<open>The steps of the block\<close>

lemma chan_tickKeyOff:
  "chan (tickKeyOff i st) = (chan st)(i := (chan st i)\<lparr>key := False, keyOff := False\<rparr>)"
  by (simp add: tickKeyOff_def Let_def)

lemma skip_tickKeyOff [simp]: "skipRegisterWrites (tickKeyOff i st) = skipRegisterWrites st"
  by (simp add: tickKeyOff_def Let_def)

lemma writes_tickKeyOff:
  "writes (tickKeyOff i st) =
     (if skipRegisterWrites st then writes st
      else writes st
        @ [\<lparr>addr = chAddr i SGU1_CHN_FLAGS0, val = flags0 ((chan st i)\<lparr>key := False\<rparr>)\<rparr>]
        @ (if keyOff (chan st i) \<and> pcm (chan st i)
           then [\<lparr>addr = chAddr i SGU1_CHN_VOL, val = 0\<rparr>] else []))"
  by (simp add: tickKeyOff_def Let_def writes_writeControl writes_chWrite')

lemma chan_tickFreq:
  "chan (tickFreq E i st) = (chan st)(i := (chan st i)\<lparr>freq := newFreq E (chan st i)\<rparr>)"
  by (auto simp add: tickFreq_def newFreq_def Let_def fun_eq_iff min_def max_def split: option.splits)

lemma writes_tickFreq [simp]: "writes (tickFreq E i st) = writes st"
  by (simp add: tickFreq_def Let_def split: option.splits)

lemma skip_tickFreq [simp]: "skipRegisterWrites (tickFreq E i st) = skipRegisterWrites st"
  by (simp add: tickFreq_def Let_def split: option.splits)

lemma newFreq_range: "0 \<le> newFreq E c \<and> newFreq E c \<le> 65535"
  by (simp add: newFreq_def Let_def)

lemma chAddr_inj: "r < 32 \<Longrightarrow> r' < 32 \<Longrightarrow> (chAddr i r = chAddr i r') = (r = r')"
proof -
  assume r: "r < 32" "r' < 32"
  have "(word_of_nat r :: ushort) = word_of_nat r' \<longleftrightarrow> r = r'"
    using r by (simp add: word_of_nat_eq_iff take_bit_eq_mod)
  then show ?thesis
    by (simp add: chAddr_def)
qed

lemma skip_tickPcmStart [simp]:
  "skipRegisterWrites (tickPcmStart E i st) = skipRegisterWrites st"
  by (simp add: tickPcmStart_def Let_def split: option.splits)

lemma chan_tickPcmStart:
  "keyOn (chan (tickPcmStart E i st) j) = keyOn (chan st j)"
  "freq (chan (tickPcmStart E i st) j) = freq (chan st j)"
  by (simp_all add: tickPcmStart_def Let_def chan_writeControlUpper split: option.splits)

lemma writes_tickPcmStart:
  assumes "\<not> skipRegisterWrites st"
  shows "\<exists>tail. writes (tickPcmStart E i st) = writes st @ tail
         \<and> (\<forall>w \<in> set tail. \<exists>r \<in> pcmRegs. addr w = chAddr i r)"
  using assms
  by (simp add: tickPcmStart_def Let_def writes_chWrite' writes_writeControlUpper' pcmRegs_def
        split: option.splits)

lemma newFreq_key [simp]:
  "newFreq E (c\<lparr>key := k\<rparr>) = newFreq E c"
  "newFreq E (c\<lparr>keyOff := k\<rparr>) = newFreq E c"
  by (simp_all add: newFreq_def Let_def split: option.splits)

lemma flags0_upd [simp]:
  "flags0 (c\<lparr>keyOff := b\<rparr>) = flags0 c"
  "flags0 (c\<lparr>freq := f\<rparr>) = flags0 c"
  "flags0 (c\<lparr>key := k, key := k'\<rparr>) = flags0 (c\<lparr>key := k'\<rparr>)"
  by (simp_all add: flags0_def)

lemma writes_tickKeyFreq:
  fixes st :: "'c Platform"
  assumes ns: "\<not> skipRegisterWrites st"
    and go: "freqChanged (chan st i) \<or> keyOn (chan st i) \<or> keyOff (chan st i)"
  shows "\<exists>tail. writes (tickKeyFreq E i st) = writes st
      @ (if keyOn (chan st i) \<or> keyOff (chan st i)
         then \<lparr>addr = chAddr i SGU1_CHN_FLAGS0, val = flags0 ((chan st i)\<lparr>key := False\<rparr>)\<rparr>
              # (if keyOff (chan st i) \<and> pcm (chan st i)
                 then [\<lparr>addr = chAddr i SGU1_CHN_VOL, val = 0\<rparr>] else [])
         else [])
      @ [\<lparr>addr = chAddr i SGU1_CHN_FREQ_L, val = word_of_int (newFreq E (chan st i) AND 0xff)\<rparr>,
         \<lparr>addr = chAddr i SGU1_CHN_FREQ_H, val = word_of_int (drop_bit 8 (newFreq E (chan st i)))\<rparr>]
      @ (if keyOn (chan st i)
         then \<lparr>addr = chAddr i SGU1_CHN_FLAGS0, val = flags0 ((chan st i)\<lparr>key := True\<rparr>)\<rparr> # tail
         else [])
      \<and> (\<forall>w \<in> set tail. \<exists>r \<in> pcmRegs. addr w = chAddr i r)"
proof -
  define c where "c = chan st i"
  define st1 where "st1 = (if keyOn c \<or> keyOff c then tickKeyOff i st else st)"
  define st2 where "st2 = tickFreq E i st1"
  define st3 where "st3 = chWrite i SGU1_CHN_FREQ_H (drop_bit 8 (freq (chan st2 i)))
                    (chWrite i SGU1_CHN_FREQ_L (freq (chan st2 i) AND 0xff) st2)"
  define st4 where "st4 = (if keyOn (chan st3 i)
                   then writeControl i (updChan i (\<lambda>c. c\<lparr>key := True\<rparr>) st3) else st3)"
  define st5 where "st5 = (if keyOn (chan st4 i)
                   then (if pcm (chan st4 i) then tickPcmStart E i st4 else st4) else st4)"
  define st6 where "st6 = (if keyOn (chan st5 i) then updChan i (\<lambda>c. c\<lparr>keyOn := False\<rparr>) st5 else st5)"
  have res: "tickKeyFreq E i st = updChan i (\<lambda>c. c\<lparr>freqChanged := False\<rparr>) st6"
    using go
    by (simp add: tickKeyFreq_def Let_def st6_def st5_def st4_def st3_def st2_def st1_def c_def)
  have s1: "\<not> skipRegisterWrites st1" using ns by (simp add: st1_def)
  then have s2: "\<not> skipRegisterWrites st2" by (simp add: st2_def)
  then have s3: "\<not> skipRegisterWrites st3" by (simp add: st3_def)
  then have s4: "\<not> skipRegisterWrites st4" by (simp add: st4_def)
  have c1: "chan st1 i = (if keyOn c \<or> keyOff c then c\<lparr>key := False, keyOff := False\<rparr> else c)"
    by (simp add: st1_def chan_tickKeyOff c_def)
  have w1: "writes st1 = writes st
      @ (if keyOn c \<or> keyOff c
         then \<lparr>addr = chAddr i SGU1_CHN_FLAGS0, val = flags0 (c\<lparr>key := False\<rparr>)\<rparr>
              # (if keyOff c \<and> pcm c then [\<lparr>addr = chAddr i SGU1_CHN_VOL, val = 0\<rparr>] else [])
         else [])"
    using ns by (simp add: st1_def writes_tickKeyOff c_def)
  have c2: "chan st2 i = (chan st1 i)\<lparr>freq := newFreq E c\<rparr>"
    by (simp add: st2_def chan_tickFreq c1)
  have w2: "writes st2 = writes st1" by (simp add: st2_def)
  have c3: "chan st3 i = chan st2 i" by (simp add: st3_def)
  have w3: "writes st3 = writes st2
      @ [\<lparr>addr = chAddr i SGU1_CHN_FREQ_L, val = word_of_int (newFreq E c AND 0xff)\<rparr>,
         \<lparr>addr = chAddr i SGU1_CHN_FREQ_H, val = word_of_int (drop_bit 8 (newFreq E c))\<rparr>]"
    using s2 by (simp add: st3_def writes_chWrite' c2)
  have k3: "keyOn (chan st3 i) = keyOn c" "pcm (chan st3 i) = pcm c"
    by (simp_all add: c3 c2 c1)
  have f3: "flags0 ((chan st3 i)\<lparr>key := True\<rparr>) = flags0 (c\<lparr>key := True\<rparr>)"
    by (simp add: c3 c2 c1 flags0_def)
  have w4: "writes st4 = writes st3
      @ (if keyOn c then [\<lparr>addr = chAddr i SGU1_CHN_FLAGS0, val = flags0 (c\<lparr>key := True\<rparr>)\<rparr>] else [])"
    using s3 by (simp add: st4_def k3 writes_writeControl f3)
  have k4: "keyOn (chan st4 i) = keyOn c" by (simp add: st4_def k3)
  obtain tail where w5: "writes st5 = writes st4 @ (if keyOn c then tail else [])"
    and t: "\<forall>w \<in> set tail. \<exists>r \<in> pcmRegs. addr w = chAddr i r"
  proof (cases "keyOn c \<and> pcm (chan st4 i)")
    case True
    from writes_tickPcmStart [OF s4, of E i] obtain tl where
      "writes (tickPcmStart E i st4) = writes st4 @ tl"
      "\<forall>w \<in> set tl. \<exists>r \<in> pcmRegs. addr w = chAddr i r" by blast
    with True that [of tl] show ?thesis by (simp add: st5_def k4)
  next
    case False
    with that [of "[]"] show ?thesis by (auto simp add: st5_def k4)
  qed
  have w6: "writes (tickKeyFreq E i st) = writes st5"
    by (simp add: res st6_def)
  show ?thesis
    unfolding c_def [symmetric]
    by (rule exI [of _ tail]) (simp add: w6 w5 w4 w3 w2 w1 t)
qed

lemma skip_writes:
  assumes "skipRegisterWrites st"
  shows "writes (chWrite c a v st) = writes st"
    and "writes (writeControl i st) = writes st"
    and "writes (writeControlUpper i st) = writes st"
    and "writes (tickKeyOff i st) = writes st"
    and "writes (tickPcmStart E i st) = writes st"
  using assms
  by (simp_all add: writes_chWrite' writes_writeControl writes_writeControlUpper' writes_tickKeyOff
        tickPcmStart_def Let_def split: option.splits)

lemma skip_tickKeyFreq:
  "skipRegisterWrites st \<Longrightarrow> writes (tickKeyFreq E i st) = writes st"
  by (simp add: tickKeyFreq_def Let_def skip_writes)

lemma freq_tickKeyFreq:
  "freqChanged (chan st i) \<or> keyOn (chan st i) \<or> keyOff (chan st i) \<Longrightarrow>
   freq (chan (tickKeyFreq E i st) i) = newFreq E (chan st i)"
  by (simp add: tickKeyFreq_def Let_def chan_tickFreq chan_tickKeyOff chan_tickPcmStart)

lemma idle_tickKeyFreq:
  "\<not> (freqChanged (chan st i) \<or> keyOn (chan st i) \<or> keyOff (chan st i)) \<Longrightarrow>
   tickKeyFreq E i st = st"
  by (simp add: tickKeyFreq_def)

lemma two_bytes:
  assumes "0 \<le> f" "f \<le> 65535"
  shows "uint (word_of_int (f AND 0xff) :: uchar) + 256 * uint (word_of_int (drop_bit 8 f) :: uchar) = f"
proof -
  have a: "f AND 0xff = f mod 256"
    using take_bit_eq_mask [of 8 f] by (simp add: take_bit_eq_mod mask_eq_exp_minus_1)
  have b: "drop_bit 8 f = f div 256" by (simp add: drop_bit_eq_div)
  have "f div 256 < 256" "0 \<le> f div 256" using assms by simp_all
  then have c: "(f div 256) mod 256 = f div 256" by simp
  show ?thesis
    unfolding a b by (simp add: uint_word_of_int take_bit_eq_mod c)
qed


lemma pcmRegs_filter:
  assumes "\<forall>w \<in> set tail. \<exists>r \<in> pcmRegs. addr w = chAddr i r"
  shows "filter (\<lambda>w. addr w = chAddr i SGU1_CHN_FLAGS0 \<or> addr w = chAddr i SGU1_CHN_FREQ_L
                     \<or> addr w = chAddr i SGU1_CHN_FREQ_H) tail = []"
    and "filter (\<lambda>w. addr w = chAddr i SGU1_CHN_FREQ_L \<or> addr w = chAddr i SGU1_CHN_FREQ_H) tail = []"
  using assms
  by (auto simp add: filter_empty_conv pcmRegs_def reg_defs chAddr_inj)


text \<open>
  C4. Whenever the block runs for a channel, whatever \<open>calcFreq\<close> and the PCM scaling
  return, the frequency left in the channel lies in 0..65535, the only writes to FREQ_L and
  FREQ_H that the block queues are its low byte and its high byte, in this order (none when
  register writes are skipped), and the two bytes together hold exactly that frequency.
  When the block does not run, nothing is queued.
\<close>

theorem tick_frequency_clamped:
  "(freqChanged (chan st i) \<or> keyOn (chan st i) \<or> keyOff (chan st i) \<longrightarrow>
      0 \<le> freq (chan (tickKeyFreq E i st) i)
      \<and> freq (chan (tickKeyFreq E i st) i) \<le> 65535
      \<and> filter (\<lambda>w. addr w \<in> {chAddr i SGU1_CHN_FREQ_L, chAddr i SGU1_CHN_FREQ_H})
           (emitted st (tickKeyFreq E i st)) =
           (if skipRegisterWrites st then []
            else [\<lparr>addr = chAddr i SGU1_CHN_FREQ_L,
                   val = word_of_int (freq (chan (tickKeyFreq E i st) i) AND 0xff)\<rparr>,
                  \<lparr>addr = chAddr i SGU1_CHN_FREQ_H,
                   val = word_of_int (drop_bit 8 (freq (chan (tickKeyFreq E i st) i)))\<rparr>])
      \<and> uint (word_of_int (freq (chan (tickKeyFreq E i st) i) AND 0xff) :: uchar)
          + 256 * uint (word_of_int (drop_bit 8 (freq (chan (tickKeyFreq E i st) i))) :: uchar)
          = freq (chan (tickKeyFreq E i st) i))
   \<and> (\<not> (freqChanged (chan st i) \<or> keyOn (chan st i) \<or> keyOff (chan st i)) \<longrightarrow>
        emitted st (tickKeyFreq E i st) = [])"
proof -
  have idle: "emitted st (tickKeyFreq E i st) = []"
    if "\<not> (freqChanged (chan st i) \<or> keyOn (chan st i) \<or> keyOff (chan st i))"
    using that by (simp add: idle_tickKeyFreq emitted_def)
  have busy: "0 \<le> freq (chan (tickKeyFreq E i st) i)
      \<and> freq (chan (tickKeyFreq E i st) i) \<le> 65535
      \<and> filter (\<lambda>w. addr w \<in> {chAddr i SGU1_CHN_FREQ_L, chAddr i SGU1_CHN_FREQ_H})
           (emitted st (tickKeyFreq E i st)) =
           (if skipRegisterWrites st then []
            else [\<lparr>addr = chAddr i SGU1_CHN_FREQ_L,
                   val = word_of_int (freq (chan (tickKeyFreq E i st) i) AND 0xff)\<rparr>,
                  \<lparr>addr = chAddr i SGU1_CHN_FREQ_H,
                   val = word_of_int (drop_bit 8 (freq (chan (tickKeyFreq E i st) i)))\<rparr>])
      \<and> uint (word_of_int (freq (chan (tickKeyFreq E i st) i) AND 0xff) :: uchar)
          + 256 * uint (word_of_int (drop_bit 8 (freq (chan (tickKeyFreq E i st) i))) :: uchar)
          = freq (chan (tickKeyFreq E i st) i)"
    if go: "freqChanged (chan st i) \<or> keyOn (chan st i) \<or> keyOff (chan st i)"
  proof -
    note f = freq_tickKeyFreq [OF go, of E]
    note r = newFreq_range [of E "chan st i"]
    have "filter (\<lambda>w. addr w \<in> {chAddr i SGU1_CHN_FREQ_L, chAddr i SGU1_CHN_FREQ_H})
           (emitted st (tickKeyFreq E i st)) =
           (if skipRegisterWrites st then []
            else [\<lparr>addr = chAddr i SGU1_CHN_FREQ_L,
                   val = word_of_int (newFreq E (chan st i) AND 0xff)\<rparr>,
                  \<lparr>addr = chAddr i SGU1_CHN_FREQ_H,
                   val = word_of_int (drop_bit 8 (newFreq E (chan st i)))\<rparr>])"
    proof (cases "skipRegisterWrites st")
      case True
      then show ?thesis by (simp add: emitted_def skip_tickKeyFreq)
    next
      case False
      from writes_tickKeyFreq [OF False go, of E] obtain tail where
        w: "writes (tickKeyFreq E i st) = writes st
        @ (if keyOn (chan st i) \<or> keyOff (chan st i)
           then \<lparr>addr = chAddr i SGU1_CHN_FLAGS0, val = flags0 ((chan st i)\<lparr>key := False\<rparr>)\<rparr>
                # (if keyOff (chan st i) \<and> pcm (chan st i)
                   then [\<lparr>addr = chAddr i SGU1_CHN_VOL, val = 0\<rparr>] else [])
           else [])
        @ [\<lparr>addr = chAddr i SGU1_CHN_FREQ_L, val = word_of_int (newFreq E (chan st i) AND 0xff)\<rparr>,
           \<lparr>addr = chAddr i SGU1_CHN_FREQ_H, val = word_of_int (drop_bit 8 (newFreq E (chan st i)))\<rparr>]
        @ (if keyOn (chan st i)
           then \<lparr>addr = chAddr i SGU1_CHN_FLAGS0, val = flags0 ((chan st i)\<lparr>key := True\<rparr>)\<rparr> # tail
           else [])"
        and t: "\<forall>w \<in> set tail. \<exists>r \<in> pcmRegs. addr w = chAddr i r"
        by blast
      have v: "chAddr i SGU1_CHN_VOL \<noteq> chAddr i SGU1_CHN_FREQ_L"
        "chAddr i SGU1_CHN_VOL \<noteq> chAddr i SGU1_CHN_FREQ_H"
        "chAddr i SGU1_CHN_FLAGS0 \<noteq> chAddr i SGU1_CHN_FREQ_L"
        "chAddr i SGU1_CHN_FLAGS0 \<noteq> chAddr i SGU1_CHN_FREQ_H"
        "chAddr i SGU1_CHN_FREQ_L \<noteq> chAddr i SGU1_CHN_FREQ_H"
        by (simp_all add: reg_defs chAddr_inj)
      show ?thesis
        using False by (simp add: emitted_def w pcmRegs_filter(2) [OF t] v)
    qed
    then show ?thesis
      using r two_bytes [of "newFreq E (chan st i)"] by (simp add: f)
  qed
  from idle busy show ?thesis by blast
qed

lemma demo_newFreq:
  "newFreq demo_engine (chan demo_keyOn 0) = 65535"
  "newFreq demo_engine (chan demo_lowFreq 0) = 0"
  by (simp_all add: newFreq_def demo_engine_def demo_keyOn_def demo_lowFreq_def demo_platform_def
        demo_chan_def Let_def)

lemma demo_chAddr:
  "chAddr 0 SGU1_CHN_FLAGS0 = 36" "chAddr 0 SGU1_CHN_FREQ_L = 32" "chAddr 0 SGU1_CHN_FREQ_H = 33"
  by (simp_all add: chAddr_def reg_defs)



text \<open>A frequency above the range is written as 65535, one below it as 0.\<close>

theorem tick_frequency_clamped_witness:
  "freq (chan (tickKeyFreq demo_engine 0 demo_keyOn) 0) = 65535
   \<and> filter (\<lambda>w. addr w \<in> {chAddr 0 SGU1_CHN_FREQ_L, chAddr 0 SGU1_CHN_FREQ_H})
        (emitted demo_keyOn (tickKeyFreq demo_engine 0 demo_keyOn)) =
        [\<lparr>addr = 32, val = 255\<rparr>, \<lparr>addr = 33, val = 255\<rparr>]
   \<and> freq (chan (tickKeyFreq demo_engine 0 demo_lowFreq) 0) = 0
   \<and> filter (\<lambda>w. addr w \<in> {chAddr 0 SGU1_CHN_FREQ_L, chAddr 0 SGU1_CHN_FREQ_H})
        (emitted demo_lowFreq (tickKeyFreq demo_engine 0 demo_lowFreq)) =
        [\<lparr>addr = 32, val = 0\<rparr>, \<lparr>addr = 33, val = 0\<rparr>]"
proof -
  have h1: "keyOn (chan demo_keyOn 0)" "\<not> skipRegisterWrites demo_keyOn"
    by (simp_all add: demo_keyOn_def demo_platform_def)
  have h2: "freqChanged (chan demo_lowFreq 0)" "\<not> skipRegisterWrites demo_lowFreq"
    by (simp_all add: demo_lowFreq_def demo_platform_def)
  have f1: "freq (chan (tickKeyFreq demo_engine 0 demo_keyOn) 0) = 65535"
    using h1 by (simp add: freq_tickKeyFreq demo_newFreq)
  have f2: "freq (chan (tickKeyFreq demo_engine 0 demo_lowFreq) 0) = 0"
    using h2 by (simp add: freq_tickKeyFreq demo_newFreq)
  from tick_frequency_clamped [of demo_keyOn 0 demo_engine]
       tick_frequency_clamped [of demo_lowFreq 0 demo_engine] h1 h2
  show ?thesis
    by (simp add: f1 f2 demo_chAddr)
qed

subsection \<open>renderSamples (C6, C7) and the introspection calls (C9)\<close>


text \<open>The loop's effect on the sample tables depends on the tables alone.\<close>

lemma renderLoop_tables:
  fixes a b :: "'c Platform"
  assumes "sampleMem a = sampleMem b" "sampleOffSGU a = sampleOffSGU b"
    "sampleLoaded a = sampleLoaded b"
  shows "fst (renderLoop E sysID i ss (m, a)) = fst (renderLoop E sysID i ss (m, b))
       \<and> sampleMem (snd (renderLoop E sysID i ss (m, a))) = sampleMem (snd (renderLoop E sysID i ss (m, b)))
       \<and> sampleOffSGU (snd (renderLoop E sysID i ss (m, a))) = sampleOffSGU (snd (renderLoop E sysID i ss (m, b)))
       \<and> sampleLoaded (snd (renderLoop E sysID i ss (m, a))) = sampleLoaded (snd (renderLoop E sysID i ss (m, b)))"
  using assms
proof (induction ss arbitrary: i m a b)
  case Nil
  then show ?case by simp
next
  case (Cons s ss)
  show ?case
  proof (cases "data8 s")
    case None
    then show ?thesis using Cons.IH [OF Cons.prems] by simp
  next
    case (Some d)
    show ?thesis
    proof (cases "renderOn s sysID")
      case False
      with Some show ?thesis
        using Cons.IH [of "a\<lparr>sampleOffSGU := (sampleOffSGU a)[i := 0]\<rparr>"
                          "b\<lparr>sampleOffSGU := (sampleOffSGU b)[i := 0]\<rparr>" "Suc i" m]
          Cons.prems
        by simp
    next
      case True
      show ?thesis
      proof (cases "m \<ge> getSampleMemCapacity E 0")
        case full: True
        with Some True Cons.prems show ?thesis by simp
      next
        case room: False
        show ?thesis
        proof (cases "m + length8 s \<ge> getSampleMemCapacity E 0")
          case over: True
          with Some True room Cons.prems show ?thesis
            by (simp add: Let_def) (rule Cons.IH; simp)
        next
          case fits: False
          with Some True room Cons.prems show ?thesis
            by (simp add: Let_def) (rule Cons.IH; simp)
        qed
      qed
    qed
  qed
qed

lemma renderSamples_fields:
  "sampleOffSGU (renderSamples E samples sysID st) =
     sampleOffSGU (snd (renderLoop E sysID 0 samples (0, renderInit E st)))"
  "sampleLoaded (renderSamples E samples sysID st) =
     sampleLoaded (snd (renderLoop E sysID 0 samples (0, renderInit E st)))"
  "sampleMem (renderSamples E samples sysID st) =
     sampleMem (snd (renderLoop E sysID 0 samples (0, renderInit E st)))"
  "sampleMemLen (renderSamples E samples sysID st) =
     fst (renderLoop E sysID 0 samples (0, renderInit E st))"
  "compo_entries (memCompo (renderSamples E samples sysID st)) =
     compo_entries (memCompo (snd (renderLoop E sysID 0 samples (0, renderInit E st))))"
  "warnings (renderSamples E samples sysID st) =
     warnings (snd (renderLoop E sysID 0 samples (0, renderInit E st)))"
  by (simp_all add: renderSamples_def Let_def split_def)

text \<open>
  C6. Running \<open>renderSamples\<close> a second time with the same sample set, the same \<open>sysID\<close> and
  the same chip configuration leaves the offset table, the loaded flags, the sample memory
  and the used-byte count exactly as the first run left them.
\<close>

theorem renderSamples_idempotent:
  "sampleOffSGU (renderSamples E samples sysID (renderSamples E samples sysID st)) =
     sampleOffSGU (renderSamples E samples sysID st)
   \<and> sampleLoaded (renderSamples E samples sysID (renderSamples E samples sysID st)) =
     sampleLoaded (renderSamples E samples sysID st)
   \<and> sampleMem (renderSamples E samples sysID (renderSamples E samples sysID st)) =
     sampleMem (renderSamples E samples sysID st)
   \<and> sampleMemLen (renderSamples E samples sysID (renderSamples E samples sysID st)) =
     sampleMemLen (renderSamples E samples sysID st)"
proof -
  have "sampleMem (renderInit E (renderSamples E samples sysID st)) = sampleMem (renderInit E st)"
    "sampleOffSGU (renderInit E (renderSamples E samples sysID st)) = sampleOffSGU (renderInit E st)"
    "sampleLoaded (renderInit E (renderSamples E samples sysID st)) = sampleLoaded (renderInit E st)"
    by (simp_all add: renderInit_def)
  from renderLoop_tables [OF this, of E sysID 0 samples 0] show ?thesis
    by (simp add: renderSamples_fields)
qed

text \<open>
  C9. \<open>isSampleLoaded\<close> answers false for every memory index other than 0 and for every
  sample index outside 0..32767; \<open>getSampleMem\<close> and \<open>getMemCompo\<close> answer the null pointer for
  every memory index other than 0. With the flag array of 32768 entries that the constructor
  allocates, no call of \<open>isSampleLoaded\<close> reads outside the array, and inside the guards it
  returns the flag of the sample.
\<close>

theorem introspection_safe:
  "(index \<noteq> 0 \<or> smp < 0 \<or> smp > 32767 \<longrightarrow> isSampleLoaded index smp st = Inr False)
   \<and> (index \<noteq> 0 \<longrightarrow> getSampleMem index st = None \<and> getMemCompo index st = None)
   \<and> (length (sampleLoaded st) = 32768 \<longrightarrow>
        isSampleLoaded index smp st \<noteq> Inl OutOfBounds
        \<and> (index = 0 \<and> 0 \<le> smp \<and> smp \<le> 32767 \<longrightarrow>
             isSampleLoaded index smp st = Inr (sampleLoaded st ! nat smp)))"
  by (auto simp add: isSampleLoaded_def getSampleMem_def getMemCompo_def)

subsection \<open>The five ways a round of the loop can go\<close>

lemma renderLoop_null:
  "data8 s = None \<Longrightarrow>
   renderLoop E sysID i (s # ss) (m, a) = renderLoop E sysID (Suc i) ss (m, a)"
  by simp

lemma renderLoop_off:
  "data8 s = Some d \<Longrightarrow> \<not> renderOn s sysID \<Longrightarrow>
   renderLoop E sysID i (s # ss) (m, a) =
     renderLoop E sysID (Suc i) ss (m, a\<lparr>sampleOffSGU := (sampleOffSGU a)[i := 0]\<rparr>)"
  by simp

lemma renderLoop_break:
  "data8 s = Some d \<Longrightarrow> renderOn s sysID \<Longrightarrow> pcmRamSize E \<le> m \<Longrightarrow>
   renderLoop E sysID i (s # ss) (m, a) = (m, a\<lparr>warnings := warnings a @ [i]\<rparr>)"
  by (simp add: getSampleMemCapacity_def)

lemma renderLoop_over:
  "data8 s = Some d \<Longrightarrow> renderOn s sysID \<Longrightarrow> m < pcmRamSize E \<Longrightarrow>
   pcmRamSize E \<le> m + length8 s \<Longrightarrow>
   renderLoop E sysID i (s # ss) (m, a) =
     renderLoop E sysID (Suc i) ss
       (m + length8 s,
        a\<lparr>sampleMem := memcpy_at (sampleMem a) m d (pcmRamSize E - m),
          warnings := warnings a @ [i],
          sampleOffSGU := (sampleOffSGU a)[i := word_of_nat m],
          memCompo := (memCompo a)\<lparr>compo_entries := compo_entries (memCompo a) @ [(i, m, m + length8 s)]\<rparr>\<rparr>)"
  by (simp add: getSampleMemCapacity_def Let_def)

lemma renderLoop_fit:
  "data8 s = Some d \<Longrightarrow> renderOn s sysID \<Longrightarrow> m + length8 s < pcmRamSize E \<Longrightarrow>
   renderLoop E sysID i (s # ss) (m, a) =
     renderLoop E sysID (Suc i) ss
       (m + length8 s,
        a\<lparr>sampleMem := memcpy_at (sampleMem a) m d (length8 s),
          sampleLoaded := (sampleLoaded a)[i := True],
          sampleOffSGU := (sampleOffSGU a)[i := word_of_nat m],
          memCompo := (memCompo a)\<lparr>compo_entries := compo_entries (memCompo a) @ [(i, m, m + length8 s)]\<rparr>\<rparr>)"
  by (simp add: getSampleMemCapacity_def Let_def)

lemma round_cases [case_names null off brk over fit]:
  assumes "data8 s = None \<Longrightarrow> P"
    and "\<And>d. data8 s = Some d \<Longrightarrow> \<not> renderOn s sysID \<Longrightarrow> P"
    and "\<And>d. data8 s = Some d \<Longrightarrow> renderOn s sysID \<Longrightarrow> cap \<le> m \<Longrightarrow> P"
    and "\<And>d. data8 s = Some d \<Longrightarrow> renderOn s sysID \<Longrightarrow> m < cap \<Longrightarrow> cap \<le> m + length8 s \<Longrightarrow> P"
    and "\<And>d. data8 s = Some d \<Longrightarrow> renderOn s sysID \<Longrightarrow> m + length8 s < cap \<Longrightarrow> P"
  shows P
proof (cases "data8 s")
  case None
  then show ?thesis by (rule assms(1))
next
  case (Some d)
  show ?thesis
  proof (cases "renderOn s sysID")
    case False
    with Some show ?thesis by (rule assms(2))
  next
    case True
    consider "cap \<le> m" | "m < cap" "cap \<le> m + length8 s" | "m + length8 s < cap"
      by linarith
    then show ?thesis
      using Some True assms(3-5) by cases blast+
  qed
qed

subsection \<open>memPos only grows; a full memory stops the copying\<close>



subsection \<open>What a run of the loop leaves alone\<close>


lemma renderLoop_below:
  "j < i \<Longrightarrow>
   sampleOffSGU (snd (renderLoop E sysID i ss (m, a))) ! j = sampleOffSGU a ! j
   \<and> sampleLoaded (snd (renderLoop E sysID i ss (m, a))) ! j = sampleLoaded a ! j"
proof (induction ss arbitrary: i m a)
  case Nil
  then show ?case by simp
next
  case (Cons s ss)
  then have j: "j < Suc i" "j \<noteq> i" by simp_all
  show ?case
  proof (cases rule: round_cases [where s = s and sysID = sysID and cap = "pcmRamSize E" and m = m])
    case null
    show ?thesis unfolding renderLoop_null [OF null] by (rule Cons.IH [OF j(1)])
  next
    case (off d)
    show ?thesis unfolding renderLoop_off [OF off] using Cons.IH [OF j(1)] j(2) by simp
  next
    case (brk d)
    show ?thesis unfolding renderLoop_break [OF brk] by simp
  next
    case (over d)
    show ?thesis unfolding renderLoop_over [OF over] using Cons.IH [OF j(1)] j(2) by simp
  next
    case (fit d)
    show ?thesis unfolding renderLoop_fit [OF fit] using Cons.IH [OF j(1)] j(2) by simp
  qed
qed



subsection \<open>The sample memory keeps its size\<close>


subsection \<open>The placed samples, in the order of their placing\<close>



lemma renderInit_fields [simp]:
  "sampleMem (renderInit E st) = replicate (pcmRamSize E) 0"
  "sampleOffSGU (renderInit E st) = replicate 32768 0"
  "sampleLoaded (renderInit E st) = replicate 32768 False"
  "compo_entries (memCompo (renderInit E st)) = []"
  "warnings (renderInit E st) = warnings st"
  by (simp_all add: renderInit_def)






text \<open>The guards at indices on both sides of their bounds.\<close>

theorem introspection_safe_witness:
  "isSampleLoaded 1 5 demo_platform = Inr False
   \<and> isSampleLoaded 0 (- 1) demo_platform = Inr False
   \<and> isSampleLoaded 0 32768 demo_platform = Inr False
   \<and> getSampleMem 3 demo_platform = None
   \<and> getMemCompo (- 2) demo_platform = None
   \<and> isSampleLoaded 0 32767 demo_platform \<noteq> Inl OutOfBounds"
proof -
  have l: "length (sampleLoaded demo_platform) = 32768" by (simp add: demo_platform_def)
  from introspection_safe [of 1 5 demo_platform] introspection_safe [of 0 "- 1" demo_platform]
    introspection_safe [of 0 32768 demo_platform] introspection_safe [of 3 0 demo_platform]
    introspection_safe [of "- 2" 0 demo_platform] introspection_safe [of 0 32767 demo_platform] l
  show ?thesis by simp
qed

subsection \<open>acquire (C5)\<close>

declare drainWrites.simps [simp del]

lemma drainWrites_eq:
  "writes (drainWrites C st) = []
   \<and> sgu (drainWrites C st) = foldl (\<lambda>c w. SGU_Write C c (addr w) (val w)) (sgu st) (writes st)"
proof (induction C st rule: drainWrites.induct)
  case (1 C st)
  show ?case
  proof (cases "writes st")
    case Nil
    then show ?thesis by (simp add: drainWrites.simps [of C st])
  next
    case (Cons w ws)
    with "1" [OF Cons] show ?thesis by (simp add: drainWrites.simps [of C st])
  qed
qed

lemma CLAMP_range: "lo \<le> hi \<Longrightarrow> lo \<le> CLAMP x lo hi \<and> CLAMP x lo hi \<le> hi"
  by (simp add: CLAMP_def)

lemma acquireFrame_state:
  "writes (fst (acquireFrame C h (st, b0, b1))) = []"
  "sgu (fst (acquireFrame C h (st, b0, b1))) =
     snd (SGU_NextSample C (foldl (\<lambda>c w. SGU_Write C c (addr w) (val w)) (sgu st) (writes st)))"
  by (simp_all add: acquireFrame_def Let_def drainWrites_eq)

lemma acquireFrame_bufs:
  "fst (snd (acquireFrame C h (st, b0, b1))) =
     b0[h := CLAMP (fst (fst (SGU_NextSample C
              (foldl (\<lambda>c w. SGU_Write C c (addr w) (val w)) (sgu st) (writes st))))) (- 32768) 32767]"
  "snd (snd (acquireFrame C h (st, b0, b1))) =
     b1[h := CLAMP (snd (fst (SGU_NextSample C
              (foldl (\<lambda>c w. SGU_Write C c (addr w) (val w)) (sgu st) (writes st))))) (- 32768) 32767]"
  by (simp_all add: acquireFrame_def Let_def drainWrites_eq)

lemma fold_frames_other:
  "h \<notin> set hs \<Longrightarrow>
   fst (snd (fold (acquireFrame C) hs p)) ! h = fst (snd p) ! h
   \<and> snd (snd (fold (acquireFrame C) hs p)) ! h = snd (snd p) ! h"
proof (induction hs arbitrary: p)
  case Nil
  then show ?case by simp
next
  case (Cons k hs)
  obtain st b0 b1 where p: "p = (st, b0, b1)" by (cases p) auto
  from Cons.prems have "h \<noteq> k" "h \<notin> set hs" by auto
  with Cons.IH [of "acquireFrame C k p"] show ?case
    by (simp add: p acquireFrame_bufs)
qed

lemma fold_frames_length:
  "length (fst (snd (fold (acquireFrame C) hs p))) = length (fst (snd p))
   \<and> length (snd (snd (fold (acquireFrame C) hs p))) = length (snd (snd p))"
proof (induction hs arbitrary: p)
  case Nil
  then show ?case by simp
next
  case (Cons k hs)
  obtain st b0 b1 where p: "p = (st, b0, b1)" by (cases p) auto
  from Cons.IH [of "acquireFrame C k p"] show ?case
    by (simp add: p acquireFrame_bufs)
qed

text \<open>
  C5. For every frame \<open>h\<close> of the \<open>len\<close> frames of \<open>acquire\<close>, with \<open>before\<close> the state in which
  the frame starts: the chip is asked for its next sample in the state \<open>chip1\<close> reached by
  applying every pending write, in queue order, and the frame leaves the queue empty; the
  two values stored at position \<open>h\<close> of the output buffers are the left and the right sample
  after \<open>CLAMP\<close> to -32768..32767, and they lie in that range.
\<close>

theorem acquire_frames:
  "h < len \<and> len \<le> length b0 \<and> len \<le> length b1 \<longrightarrow>
     (let before = fold (acquireFrame C) [0 ..< h] (st, b0, b1);
          chip1 = foldl (\<lambda>c w. SGU_Write C c (addr w) (val w)) (sgu (fst before)) (writes (fst before));
          lr = fst (SGU_NextSample C chip1);
          after = acquireFrame C h before;
          out = acquire C len (st, b0, b1)
      in writes (fst after) = []
       \<and> sgu (fst after) = snd (SGU_NextSample C chip1)
       \<and> fst (snd out) ! h = CLAMP (fst lr) (- 32768) 32767
       \<and> snd (snd out) ! h = CLAMP (snd lr) (- 32768) 32767
       \<and> - 32768 \<le> fst (snd out) ! h \<and> fst (snd out) ! h \<le> 32767
       \<and> - 32768 \<le> snd (snd out) ! h \<and> snd (snd out) ! h \<le> 32767)"
proof (intro impI)
  assume a: "h < len \<and> len \<le> length b0 \<and> len \<le> length b1"
  define before where "before = fold (acquireFrame C) [0 ..< h] (st, b0, b1)"
  obtain sh c0 c1 where bf: "before = (sh, c0, c1)" by (cases before) auto
  have lens: "length c0 = length b0" "length c1 = length b1"
    using fold_frames_length [of C "[0 ..< h]" "(st, b0, b1)"] by (simp_all add: before_def [symmetric] bf)
  have split: "[0 ..< len] = [0 ..< h] @ h # [Suc h ..< len]"
  proof -
    have "[0 ..< h + (len - h)] = [0 ..< h] @ [h ..< h + (len - h)]"
      by (rule upt_add_eq_append) simp
    moreover have "[h ..< len] = h # [Suc h ..< len]"
      using a by (simp add: upt_conv_Cons)
    ultimately show ?thesis using a by simp
  qed
  have out: "acquire C len (st, b0, b1) = fold (acquireFrame C) [Suc h ..< len] (acquireFrame C h before)"
    by (simp add: acquire_def split before_def)
  have "h \<notin> set [Suc h ..< len]" by simp
  from fold_frames_other [OF this, of C "acquireFrame C h before"]
  have at: "fst (snd (acquire C len (st, b0, b1))) ! h = fst (snd (acquireFrame C h before)) ! h"
    "snd (snd (acquire C len (st, b0, b1))) ! h = snd (snd (acquireFrame C h before)) ! h"
    by (simp_all add: out)
  have hl: "h < length c0" "h < length c1" using a lens by simp_all
  show "let before = fold (acquireFrame C) [0 ..< h] (st, b0, b1);
          chip1 = foldl (\<lambda>c w. SGU_Write C c (addr w) (val w)) (sgu (fst before)) (writes (fst before));
          lr = fst (SGU_NextSample C chip1);
          after = acquireFrame C h before;
          out = acquire C len (st, b0, b1)
      in writes (fst after) = []
       \<and> sgu (fst after) = snd (SGU_NextSample C chip1)
       \<and> fst (snd out) ! h = CLAMP (fst lr) (- 32768) 32767
       \<and> snd (snd out) ! h = CLAMP (snd lr) (- 32768) 32767
       \<and> - 32768 \<le> fst (snd out) ! h \<and> fst (snd out) ! h \<le> 32767
       \<and> - 32768 \<le> snd (snd out) ! h \<and> snd (snd out) ! h \<le> 32767"
    unfolding Let_def before_def [symmetric] at
    using hl CLAMP_range [of "- 32768" 32767]
    by (simp add: bf acquireFrame_state acquireFrame_bufs)
qed

text \<open>One frame with two writes pending: both reach the chip, and the samples are clamped.\<close>

theorem acquire_frames_witness:
  "writes (fst (acquireFrame demo_chip 0 (demo_pending, [0], [0]))) = []
   \<and> pcm_ram (sgu (fst (acquireFrame demo_chip 0 (demo_pending, [0], [0])))) = replicate 16 0 @ [1, 7]
   \<and> fst (snd (acquire demo_chip 1 (demo_pending, [0], [0]))) ! 0 = 32767
   \<and> snd (snd (acquire demo_chip 1 (demo_pending, [0], [0]))) ! 0 = - 32768"
proof -
  have h: "(0::nat) < 1 \<and> 1 \<le> length [0::int] \<and> 1 \<le> length [0::int]" by simp
  have w: "writes demo_pending = [\<lparr>addr = 36, val = 1\<rparr>, \<lparr>addr = 32, val = 7\<rparr>]"
    "pcm_ram (sgu demo_pending) = replicate 16 0"
    by (simp_all add: demo_pending_def demo_platform_def)
  from acquire_frames [of 0 1 "[0]" "[0]" demo_chip demo_pending] h
  show ?thesis
    by (simp add: Let_def w demo_chip_def CLAMP_def)
qed

end
